theory Spec2Isabelle
  imports Complex_Main "HOL-Library.Word"
begin

unbundle bit_operations_syntax

section \<open>Python values used by the chunker and the vector store\<close>

text \<open>
  Exceptions the modelled code can raise. A function that can raise returns
  \<open>py_error + 'a\<close>, with \<open>Inl\<close> for the exception.
\<close>

datatype py_error =
    IndexError
  | KeyError
  | ValueError
  | UnboundLocalError
  | FileNotFoundError
  | DuplicateIDError
  | SchemaError

text \<open>Values of a metadata dictionary (what ChromaDB and JSON can hold here).\<close>

datatype meta_val = MStr string | MInt int | MBool bool

text \<open>
  A Python \<open>dict\<close> with string keys: an association list in insertion order, keys
  unique. \<open>dict_set\<close> is \<open>d[k] = v\<close>: an existing key keeps its place.
\<close>

type_synonym dict = "(string \<times> meta_val) list"

fun dict_set :: "string \<Rightarrow> meta_val \<Rightarrow> dict \<Rightarrow> dict" where
  "dict_set k v [] = [(k, v)]"
| "dict_set k v ((k', v') # d) = (if k = k' then (k, v) # d else (k', v') # dict_set k v d)"

text \<open>\<open>{**a, **b}\<close>: the entries of \<open>b\<close> are written over \<open>a\<close>, in order.\<close>

fun dict_merge :: "dict \<Rightarrow> dict \<Rightarrow> dict" where
  "dict_merge a [] = a"
| "dict_merge a ((k, v) # b) = dict_merge (dict_set k v a) b"

text \<open>\<open>d[k]\<close> raises KeyError on a missing key; \<open>d.get(k)\<close> returns None.\<close>

definition dict_item :: "dict \<Rightarrow> string \<Rightarrow> py_error + meta_val" where
  "dict_item d k = (case map_of d k of None \<Rightarrow> Inl KeyError | Some v \<Rightarrow> Inr v)"

definition dict_get :: "dict \<Rightarrow> string \<Rightarrow> meta_val option" where
  "dict_get d k = map_of d k"

subsection \<open>Strings\<close>

text \<open>\<open>str(n)\<close> for an integer: decimal digits, a minus sign when negative.\<close>

fun digits10 :: "nat \<Rightarrow> string" where
  "digits10 n =
     (if n < 10 then [char_of (48 + n)]
      else digits10 (n div 10) @ [char_of (48 + n mod 10)])"

declare digits10.simps [simp del]

definition str_int :: "int \<Rightarrow> string" where
  "str_int i = (if i < 0 then CHR ''-'' # digits10 (nat (- i)) else digits10 (nat i))"

text \<open>\<open>s.split('\n')\<close>: always at least one piece.\<close>

fun split_nl :: "string \<Rightarrow> string list" where
  "split_nl [] = [[]]"
| "split_nl (c # cs) =
     (if c = CHR 0x0A then [] # split_nl cs
      else (case split_nl cs of [] \<Rightarrow> [[c]] | l # ls \<Rightarrow> (c # l) # ls))"

text \<open>\<open>'\n'.join(ls)\<close>.\<close>

fun join_nl :: "string list \<Rightarrow> string" where
  "join_nl [] = []"
| "join_nl [l] = l"
| "join_nl (l # l' # ls) = l @ CHR 0x0A # join_nl (l' # ls)"

text \<open>\<open>xs[a:b]\<close> and \<open>xs[:k]\<close>. Slices never raise; a negative \<open>k\<close> counts from the end.\<close>

definition slice :: "'a list \<Rightarrow> nat \<Rightarrow> nat \<Rightarrow> 'a list" where
  "slice xs a b = take (b - a) (drop a xs)"

definition slice_to :: "'a list \<Rightarrow> int \<Rightarrow> 'a list" where
  "slice_to xs k = (if 0 \<le> k then take (nat k) xs else take (length xs - nat (- k)) xs)"

text \<open>\<open>xs[i]\<close> for \<open>i \<ge> 0\<close>: IndexError out of range.\<close>

definition py_index :: "'a list \<Rightarrow> nat \<Rightarrow> py_error + 'a" where
  "py_index xs i = (if i < length xs then Inr (xs ! i) else Inl IndexError)"

text \<open>\<open>s.strip(chars)\<close>: drops the characters of \<open>chars\<close> from both ends.\<close>

definition strip_chars :: "string \<Rightarrow> string \<Rightarrow> string" where
  "strip_chars chars s =
     rev (dropWhile (\<lambda>c. c \<in> set chars) (rev (dropWhile (\<lambda>c. c \<in> set chars) s)))"

text \<open>\<open>a in b\<close> for strings: \<open>a\<close> occurs in \<open>b\<close> as a contiguous piece.\<close>

fun str_in :: "string \<Rightarrow> string \<Rightarrow> bool" where
  "str_in a [] = (a = [])"
| "str_in a (c # cs) = (take (length a) (c # cs) = a \<or> str_in a cs)"

subsection \<open>hashlib.md5(...).hexdigest()\<close>

text \<open>
  MD5 as RFC 1321 defines it, on the bytes of the string: the message is padded with
  0x80, zeros and its bit length (64 bits, little endian) to a multiple of 64 bytes, each
  block of sixteen little-endian 32-bit words goes through 64 steps, and the four state
  words are printed as 32 lower-case hexadecimal digits.
\<close>

type_synonym w32 = "32 word"

definition md5_shift :: "nat list" where
  "md5_shift =
     [7, 12, 17, 22, 7, 12, 17, 22, 7, 12, 17, 22, 7, 12, 17, 22,
      5, 9, 14, 20, 5, 9, 14, 20, 5, 9, 14, 20, 5, 9, 14, 20,
      4, 11, 16, 23, 4, 11, 16, 23, 4, 11, 16, 23, 4, 11, 16, 23,
      6, 10, 15, 21, 6, 10, 15, 21, 6, 10, 15, 21, 6, 10, 15, 21]"

definition md5_sine :: "w32 list" where
  "md5_sine =
     [0xd76aa478, 0xe8c7b756, 0x242070db, 0xc1bdceee,
      0xf57c0faf, 0x4787c62a, 0xa8304613, 0xfd469501,
      0x698098d8, 0x8b44f7af, 0xffff5bb1, 0x895cd7be,
      0x6b901122, 0xfd987193, 0xa679438e, 0x49b40821,
      0xf61e2562, 0xc040b340, 0x265e5a51, 0xe9b6c7aa,
      0xd62f105d, 0x02441453, 0xd8a1e681, 0xe7d3fbc8,
      0x21e1cde6, 0xc33707d6, 0xf4d50d87, 0x455a14ed,
      0xa9e3e905, 0xfcefa3f8, 0x676f02d9, 0x8d2a4c8a,
      0xfffa3942, 0x8771f681, 0x6d9d6122, 0xfde5380c,
      0xa4beea44, 0x4bdecfa9, 0xf6bb4b60, 0xbebfbc70,
      0x289b7ec6, 0xeaa127fa, 0xd4ef3085, 0x04881d05,
      0xd9d4d039, 0xe6db99e5, 0x1fa27cf8, 0xc4ac5665,
      0xf4292244, 0x432aff97, 0xab9423a7, 0xfc93a039,
      0x655b59c3, 0x8f0ccc92, 0xffeff47d, 0x85845dd1,
      0x6fa87e4f, 0xfe2ce6e0, 0xa3014314, 0x4e0811a1,
      0xf7537e82, 0xbd3af235, 0x2ad7d2bb, 0xeb86d391]"

definition rotl32 :: "w32 \<Rightarrow> nat \<Rightarrow> w32" where
  "rotl32 x n = (push_bit n x) OR (drop_bit (32 - n) x)"

fun le_bytes :: "nat \<Rightarrow> nat \<Rightarrow> nat list" where
  "le_bytes 0 n = []"
| "le_bytes (Suc k) n = n mod 256 # le_bytes k (n div 256)"

definition md5_pad :: "nat list \<Rightarrow> nat list" where
  "md5_pad bs =
     (let n = length bs
      in bs @ [128] @ replicate ((119 - n mod 64) mod 64) 0 @ le_bytes 8 (8 * n))"

fun md5_words :: "nat list \<Rightarrow> w32 list" where
  "md5_words (b0 # b1 # b2 # b3 # bs) =
     word_of_nat (b0 + 256 * b1 + 65536 * b2 + 16777216 * b3) # md5_words bs"
| "md5_words _ = []"

fun md5_blocks :: "w32 list \<Rightarrow> w32 list list" where
  "md5_blocks [] = []"
| "md5_blocks (w # ws) = take 16 (w # ws) # md5_blocks (drop 16 (w # ws))"

definition md5_step :: "w32 list \<Rightarrow> w32 \<times> w32 \<times> w32 \<times> w32 \<Rightarrow> nat \<Rightarrow> w32 \<times> w32 \<times> w32 \<times> w32" where
  "md5_step m st i =
     (case st of (a, b, c, d) \<Rightarrow>
        let f = (if i < 16 then (b AND c) OR (NOT b AND d)
                 else if i < 32 then (d AND b) OR (NOT d AND c)
                 else if i < 48 then b XOR c XOR d
                 else c XOR (b OR NOT d));
            g = (if i < 16 then i
                 else if i < 32 then (5 * i + 1) mod 16
                 else if i < 48 then (3 * i + 5) mod 16
                 else (7 * i) mod 16);
            f' = f + a + md5_sine ! i + m ! g
        in (d, b + rotl32 f' (md5_shift ! i), b, c))"

definition md5_block :: "w32 \<times> w32 \<times> w32 \<times> w32 \<Rightarrow> w32 list \<Rightarrow> w32 \<times> w32 \<times> w32 \<times> w32" where
  "md5_block st m =
     (case st of (a0, b0, c0, d0) \<Rightarrow>
        (case foldl (md5_step m) st [0..<64] of (a, b, c, d) \<Rightarrow>
           (a0 + a, b0 + b, c0 + c, d0 + d)))"

definition hex_digit :: "nat \<Rightarrow> char" where
  "hex_digit n = (if n < 10 then char_of (48 + n) else char_of (87 + n))"

definition hex_byte :: "nat \<Rightarrow> string" where
  "hex_byte b = [hex_digit (b div 16 mod 16), hex_digit (b mod 16)]"

definition word_hex :: "w32 \<Rightarrow> string" where
  "word_hex w =
     hex_byte (unat w mod 256) @ hex_byte (unat w div 256 mod 256)
       @ hex_byte (unat w div 65536 mod 256) @ hex_byte (unat w div 16777216 mod 256)"

definition md5_hexdigest :: "string \<Rightarrow> string" where
  "md5_hexdigest s =
     (case foldl md5_block (0x67452301, 0xefcdab89, 0x98badcfe, 0x10325476)
             (md5_blocks (md5_words (md5_pad (map of_char s)))) of
        (a, b, c, d) \<Rightarrow> word_hex a @ word_hex b @ word_hex c @ word_hex d)"

section \<open>tree\_sitter\_chunker.py\<close>

subsection \<open>CodeChunk\<close>

record code_chunk =
  content :: string
  chunk_type :: string
  language :: string
  file_path :: string
  start_line :: int
  end_line :: int
  name :: "string option"
  parent_context :: "string option"
  metadata :: dict
  chunk_id :: "string option"

text \<open>
  \<open>CodeChunk._generate_id\<close>: the MD5 of \<open>file_path:start_line:content\<close>, cut to its
  first 12 hexadecimal digits, after the language and the chunk type.
\<close>

definition generate_id :: "code_chunk \<Rightarrow> string" where
  "generate_id c =
     (let content_hash =
            md5_hexdigest (file_path c @ '':'' @ str_int (start_line c) @ '':'' @ content c)
      in language c @ ''_'' @ chunk_type c @ ''_'' @ take 12 content_hash)"

text \<open>
  \<open>CodeChunk.__post_init__\<close>: a missing metadata dictionary becomes the empty one, and
  a missing chunk id is generated; an id that was passed in is kept.
\<close>

definition post_init :: "code_chunk \<Rightarrow> code_chunk" where
  "post_init c =
     (if chunk_id c = None then c\<lparr>chunk_id := Some (generate_id c)\<rparr> else c)"

text \<open>
  The constructor call \<open>CodeChunk(content=..., ..., chunk_id=...)\<close>: the dataclass
  stores the fields and runs \<open>__post_init__\<close>. The arguments \<open>metadata\<close> and
  \<open>chunk_id\<close> are optional (None when left out).
\<close>

definition CodeChunk ::
  "string \<Rightarrow> string \<Rightarrow> string \<Rightarrow> string \<Rightarrow> int \<Rightarrow> int \<Rightarrow> string option \<Rightarrow> string option
     \<Rightarrow> dict option \<Rightarrow> string option \<Rightarrow> code_chunk" where
  "CodeChunk cont ty lang path sl el nm parent meta cid =
     post_init
       \<lparr>content = cont, chunk_type = ty, language = lang, file_path = path,
        start_line = sl, end_line = el, name = nm, parent_context = parent,
        metadata = (case meta of None \<Rightarrow> [] | Some m \<Rightarrow> m), chunk_id = cid\<rparr>"

subsection \<open>TreeSitterConfig and the chunker\<close>

record tree_sitter_config =
  chunk_by_functions :: bool
  chunk_by_classes :: bool
  chunk_by_methods :: bool
  include_docstrings :: bool
  min_chunk_size :: int
  max_chunk_size :: int
  include_imports :: bool

text \<open>The defaults of config.py.\<close>

definition default_config :: tree_sitter_config where
  "default_config =
     \<lparr>chunk_by_functions = True, chunk_by_classes = True, chunk_by_methods = True,
      include_docstrings = True, min_chunk_size = 50, max_chunk_size = 2000,
      include_imports = True\<rparr>"

text \<open>\<open>_is_valid_chunk\<close>: the size filter.\<close>

definition is_valid_chunk :: "tree_sitter_config \<Rightarrow> code_chunk \<Rightarrow> bool" where
  "is_valid_chunk cfg c =
     (let content_len = int (length (content c))
      in min_chunk_size cfg \<le> content_len \<and> content_len \<le> max_chunk_size cfg)"

subsection \<open>The fallback text chunker\<close>

text \<open>
  The loop of \<open>_fallback_chunking\<close> over \<open>enumerate(lines)\<close>: the lines still to read,
  the index \<open>i\<close> of the next one, \<open>current_chunk\<close>, \<open>current_size\<close> and the chunks
  so far. It returns the chunks and the \<open>current_chunk\<close> left at the end.
\<close>

fun fallback_loop ::
  "tree_sitter_config \<Rightarrow> string \<Rightarrow> string \<Rightarrow> string list \<Rightarrow> nat \<Rightarrow> string list \<Rightarrow> int
     \<Rightarrow> code_chunk list \<Rightarrow> code_chunk list \<times> string list" where
  "fallback_loop cfg path lang [] i current_chunk current_size chunks = (chunks, current_chunk)"
| "fallback_loop cfg path lang (line # rest) i current_chunk current_size chunks =
     (let current_chunk' = current_chunk @ [line];
          current_size' = current_size + int (length line)
      in if current_size' \<ge> max_chunk_size cfg then
           fallback_loop cfg path lang rest (Suc i) [] 0
             (chunks @ [CodeChunk (join_nl current_chunk') ''text_block'' lang path
                          (int i - int (length current_chunk') + 1) (int i) None None None None])
         else fallback_loop cfg path lang rest (Suc i) current_chunk' current_size' chunks)"

text \<open>
  A \<open>Path\<close>, by what the chunker reads of it: \<open>str(file_path)\<close> and
  \<open>file_path.suffix\<close>. The file system maps a path to the text that
  \<open>open(file_path, 'r', encoding='utf-8', errors='ignore').read()\<close> returns; a path
  it does not hold raises FileNotFoundError.
\<close>

record py_path =
  path_str :: string
  suffix :: string

type_synonym file_system = "string \<rightharpoonup> string"

text \<open>
  \<open>_fallback_chunking\<close>: the file is read and split into lines; after the loop, a
  non-empty \<open>current_chunk\<close> is flushed as the last chunk.
\<close>

definition fallback_chunking ::
  "tree_sitter_config \<Rightarrow> file_system \<Rightarrow> py_path \<Rightarrow> string \<Rightarrow> py_error + code_chunk list" where
  "fallback_chunking cfg fs fp lang =
     (case fs (path_str fp) of
        None \<Rightarrow> Inl FileNotFoundError
      | Some text \<Rightarrow>
          (let lines = split_nl text
           in case fallback_loop cfg (path_str fp) lang lines 0 [] 0 [] of
                (chunks, current_chunk) \<Rightarrow>
                  if current_chunk \<noteq> [] then
                    Inr (chunks @ [CodeChunk (join_nl current_chunk) ''text_block'' lang
                                     (path_str fp)
                                     (int (length lines) - int (length current_chunk))
                                     (int (length lines) - 1) None None None None])
                  else Inr chunks))"

subsection \<open>The fallback chunker as the specification words it\<close>

text \<open>
  The specification's description of the fallback chunker, on the list of lines:
  accumulate consecutive lines until the accumulated character count (the sum of the line
  lengths) reaches \<open>max_chunk_size\<close>, then flush the accumulator as one window and
  start a new one; flush any remainder at the end of the file.
\<close>

fun window_lines :: "int \<Rightarrow> string list \<Rightarrow> string list \<Rightarrow> int \<Rightarrow> string list list" where
  "window_lines mx [] acc n = (if acc = [] then [] else [acc])"
| "window_lines mx (l # ls) acc n =
     (if n + int (length l) \<ge> mx then (acc @ [l]) # window_lines mx ls [] 0
      else window_lines mx ls (acc @ [l]) (n + int (length l)))"

text \<open>One \<open>text_block\<close> chunk per window, the windows numbered by the lines they hold.\<close>

fun text_blocks :: "string \<Rightarrow> string \<Rightarrow> nat \<Rightarrow> string list list \<Rightarrow> code_chunk list" where
  "text_blocks path lang start [] = []"
| "text_blocks path lang start (g # gs) =
     CodeChunk (join_nl g) ''text_block'' lang path
       (int start) (int start + int (length g) - 1) None None None None
     # text_blocks path lang (start + length g) gs"

text \<open>
  The line spans of a list of chunks tile the lines \<open>a, ..., b - 1\<close>: the first chunk
  starts at \<open>a\<close>, each chunk is non-empty and starts where the previous one ended, and
  the last one ends at \<open>b - 1\<close>.
\<close>

fun spans_cover :: "int \<Rightarrow> code_chunk list \<Rightarrow> int \<Rightarrow> bool" where
  "spans_cover a [] b = (a = b)"
| "spans_cover a (c # cs) b =
     (start_line c = a \<and> start_line c \<le> end_line c \<and> spans_cover (end_line c + 1) cs b)"

text \<open>The lines a chunk spans, cut from the lines of the file.\<close>

definition span_lines :: "string list \<Rightarrow> code_chunk \<Rightarrow> string list" where
  "span_lines lines c = slice lines (nat (start_line c)) (nat (end_line c + 1))"

subsection \<open>Syntax trees\<close>

text \<open>
  A tree-sitter node, by what the chunker reads of it: \<open>type\<close>, \<open>start_point\<close> and
  \<open>end_point\<close> (row, column), \<open>children\<close>, and the field names of the grammar, each
  with the index of the child it names (\<open>child_by_field_name\<close> returns that child, or
  None).
\<close>

datatype node =
  Node (node_type: string) (start_point: "nat \<times> nat") (end_point: "nat \<times> nat")
       (children: "node list") (field_names: "(string \<times> nat) list")

definition child_by_field_name :: "node \<Rightarrow> string \<Rightarrow> node option" where
  "child_by_field_name n f =
     (case map_of (field_names n) f of
        None \<Rightarrow> None
      | Some i \<Rightarrow> if i < length (children n) then Some (children n ! i) else None)"

text \<open>Python truth of an optional string: None and the empty string are false.\<close>

definition truthy :: "string option \<Rightarrow> bool" where
  "truthy s = (case s of None \<Rightarrow> False | Some t \<Rightarrow> t \<noteq> [])"

text \<open>The loop of \<open>_get_node_text\<close> over the rows strictly between the first and the last.\<close>

fun text_rows :: "string list \<Rightarrow> nat list \<Rightarrow> string \<Rightarrow> py_error + string" where
  "text_rows code_lines [] text = Inr text"
| "text_rows code_lines (row # rows) text =
     (case py_index code_lines row of
        Inl e \<Rightarrow> Inl e
      | Inr l \<Rightarrow> text_rows code_lines rows (text @ CHR 0x0A # l))"

definition get_node_text :: "node option \<Rightarrow> string list \<Rightarrow> py_error + string" where
  "get_node_text node code_lines =
     (case node of
        None \<Rightarrow> Inr []
      | Some n \<Rightarrow>
          (case (start_point n, end_point n) of
             ((start_row, start_col), (end_row, end_col)) \<Rightarrow>
               if start_row = end_row then
                 (case py_index code_lines start_row of
                    Inl e \<Rightarrow> Inl e
                  | Inr l \<Rightarrow> Inr (slice l start_col end_col))
               else
                 (case py_index code_lines start_row of
                    Inl e \<Rightarrow> Inl e
                  | Inr l \<Rightarrow>
                      (case text_rows code_lines [start_row + 1 ..< end_row] (drop start_col l) of
                         Inl e \<Rightarrow> Inl e
                       | Inr text \<Rightarrow>
                           (case py_index code_lines end_row of
                              Inl e \<Rightarrow> Inl e
                            | Inr l' \<Rightarrow> Inr (text @ CHR 0x0A # take end_col l'))))))"

definition get_node_content :: "node \<Rightarrow> string list \<Rightarrow> string" where
  "get_node_content n code_lines =
     (let start_row = fst (start_point n); end_row = fst (end_point n)
      in join_nl (slice code_lines start_row (end_row + 1)))"

definition extract_docstring :: "node \<Rightarrow> string list \<Rightarrow> py_error + string option" where
  "extract_docstring n code_lines =
     (case child_by_field_name n ''body'' of
        None \<Rightarrow> Inr None
      | Some body \<Rightarrow>
          if length (children body) > 0 then
            (let first_child = children body ! 0
             in if node_type first_child = ''expression_statement'' then
                  (case py_index (children first_child) 0 of
                     Inl e \<Rightarrow> Inl e
                   | Inr string_node \<Rightarrow>
                       if node_type string_node = ''string'' then
                         (case get_node_text (Some string_node) code_lines of
                            Inl e \<Rightarrow> Inl e
                          | Inr t \<Rightarrow> Inr (Some (strip_chars [CHR 0x22, CHR 0x27] t)))
                       else Inr None)
                else Inr None)
          else Inr None)"

subsection \<open>Extraction of functions, classes and imports\<close>

text \<open>
  \<open>_extract_function_chunk\<close> appends one chunk to \<open>chunks\<close>. The variable
  \<open>docstring\<close> is assigned only under \<open>include_docstrings\<close>; without it, reading
  \<open>docstring\<close> for the metadata raises UnboundLocalError.
\<close>

definition extract_function_chunk ::
  "tree_sitter_config \<Rightarrow> node \<Rightarrow> string list \<Rightarrow> string \<Rightarrow> string option \<Rightarrow> code_chunk list
     \<Rightarrow> py_error + code_chunk list" where
  "extract_function_chunk cfg n code_lines path parent_class chunks =
     (case get_node_text (child_by_field_name n ''name'') code_lines of
        Inl e \<Rightarrow> Inl e
      | Inr func_name \<Rightarrow>
          (let func_content = get_node_content n code_lines
           in if include_docstrings cfg then
                (case extract_docstring n code_lines of
                   Inl e \<Rightarrow> Inl e
                 | Inr docstring \<Rightarrow>
                     (let func_content' =
                            (if truthy docstring \<and> \<not> str_in (the docstring) func_content
                             then [CHR 0x22, CHR 0x22, CHR 0x22] @ the docstring
                                    @ [CHR 0x22, CHR 0x22, CHR 0x22, CHR 0x0A] @ func_content
                             else func_content);
                          ctype = (if truthy parent_class then ''method'' else ''function'')
                      in Inr (chunks @
                           [CodeChunk func_content' ctype ''python'' path
                              (int (fst (start_point n))) (int (fst (end_point n)))
                              (Some func_name) parent_class
                              (Some [(''has_docstring'', MBool (truthy docstring))]) None])))
              else Inl UnboundLocalError))"

text \<open>
  The sweep over the children of a class node in \<open>_extract_python_chunks\<close>: each direct
  child of type \<open>function_definition\<close> is extracted with the class name as parent.
\<close>

fun extract_methods ::
  "tree_sitter_config \<Rightarrow> string list \<Rightarrow> string \<Rightarrow> node list \<Rightarrow> string \<Rightarrow> code_chunk list
     \<Rightarrow> py_error + code_chunk list" where
  "extract_methods cfg code_lines path [] class_name chunks = Inr chunks"
| "extract_methods cfg code_lines path (child # rest) class_name chunks =
     (if node_type child = ''function_definition'' then
        (case extract_function_chunk cfg child code_lines path (Some class_name) chunks of
           Inl e \<Rightarrow> Inl e
         | Inr chunks' \<Rightarrow> extract_methods cfg code_lines path rest class_name chunks')
      else extract_methods cfg code_lines path rest class_name chunks)"

text \<open>
  \<open>traverse\<close> of \<open>_extract_python_chunks\<close>, with the list \<open>chunks\<close> it appends to
  passed through. The recursion into the children passes \<open>parent_class\<close> on unchanged.
\<close>

fun traverse_python ::
  "tree_sitter_config \<Rightarrow> string list \<Rightarrow> string \<Rightarrow> node \<Rightarrow> string option \<Rightarrow> code_chunk list
     \<Rightarrow> py_error + code_chunk list"
and traverse_python_children ::
  "tree_sitter_config \<Rightarrow> string list \<Rightarrow> string \<Rightarrow> node list \<Rightarrow> string option \<Rightarrow> code_chunk list
     \<Rightarrow> py_error + code_chunk list" where
  "traverse_python cfg code_lines path (Node ty sp ep kids fns) parent_class chunks =
     (if ty = ''class_definition'' \<and> chunk_by_classes cfg then
        (case get_node_text (child_by_field_name (Node ty sp ep kids fns) ''name'') code_lines of
           Inl e \<Rightarrow> Inl e
         | Inr class_name \<Rightarrow>
             (case (if chunk_by_methods cfg then
                      extract_methods cfg code_lines path kids class_name
                        (chunks @
                         [CodeChunk (get_node_content (Node ty sp ep kids fns) code_lines)
                            ''class'' ''python'' path (int (fst sp)) (int (fst ep))
                            (Some class_name) None None None])
                    else
                      Inr (chunks @
                         [CodeChunk (get_node_content (Node ty sp ep kids fns) code_lines)
                            ''class'' ''python'' path (int (fst sp)) (int (fst ep))
                            (Some class_name) None None None])) of
                Inl e \<Rightarrow> Inl e
              | Inr chunks' \<Rightarrow>
                  traverse_python_children cfg code_lines path kids parent_class chunks'))
      else if ty = ''function_definition'' \<and> chunk_by_functions cfg then
        (case extract_function_chunk cfg (Node ty sp ep kids fns) code_lines path
                parent_class chunks of
           Inl e \<Rightarrow> Inl e
         | Inr chunks' \<Rightarrow>
             traverse_python_children cfg code_lines path kids parent_class chunks')
      else traverse_python_children cfg code_lines path kids parent_class chunks)"
| "traverse_python_children cfg code_lines path [] parent_class chunks = Inr chunks"
| "traverse_python_children cfg code_lines path (child # rest) parent_class chunks =
     (case traverse_python cfg code_lines path child parent_class chunks of
        Inl e \<Rightarrow> Inl e
      | Inr chunks' \<Rightarrow> traverse_python_children cfg code_lines path rest parent_class chunks')"

definition extract_python_chunks ::
  "tree_sitter_config \<Rightarrow> node \<Rightarrow> string list \<Rightarrow> string \<Rightarrow> py_error + code_chunk list" where
  "extract_python_chunks cfg root_node code_lines path =
     traverse_python cfg code_lines path root_node None []"

text \<open>\<open>traverse\<close> of \<open>_extract_javascript_chunks\<close>.\<close>

fun traverse_javascript ::
  "tree_sitter_config \<Rightarrow> string list \<Rightarrow> string \<Rightarrow> string \<Rightarrow> node \<Rightarrow> code_chunk list
     \<Rightarrow> py_error + code_chunk list"
and traverse_javascript_children ::
  "tree_sitter_config \<Rightarrow> string list \<Rightarrow> string \<Rightarrow> string \<Rightarrow> node list \<Rightarrow> code_chunk list
     \<Rightarrow> py_error + code_chunk list" where
  "traverse_javascript cfg code_lines path lang (Node ty sp ep kids fns) chunks =
     (if (ty = ''function_declaration'' \<or> ty = ''function'') \<and> chunk_by_functions cfg then
        (case get_node_text (child_by_field_name (Node ty sp ep kids fns) ''name'') code_lines of
           Inl e \<Rightarrow> Inl e
         | Inr t \<Rightarrow>
             traverse_javascript_children cfg code_lines path lang kids
               (chunks @
                [CodeChunk (get_node_content (Node ty sp ep kids fns) code_lines)
                   ''function'' lang path (int (fst sp)) (int (fst ep))
                   (Some (if t = [] then ''anonymous'' else t)) None None None]))
      else if ty = ''class_declaration'' \<and> chunk_by_classes cfg then
        (case get_node_text (child_by_field_name (Node ty sp ep kids fns) ''name'') code_lines of
           Inl e \<Rightarrow> Inl e
         | Inr class_name \<Rightarrow>
             traverse_javascript_children cfg code_lines path lang kids
               (chunks @
                [CodeChunk (get_node_content (Node ty sp ep kids fns) code_lines)
                   ''class'' lang path (int (fst sp)) (int (fst ep))
                   (Some class_name) None None None]))
      else traverse_javascript_children cfg code_lines path lang kids chunks)"
| "traverse_javascript_children cfg code_lines path lang [] chunks = Inr chunks"
| "traverse_javascript_children cfg code_lines path lang (child # rest) chunks =
     (case traverse_javascript cfg code_lines path lang child chunks of
        Inl e \<Rightarrow> Inl e
      | Inr chunks' \<Rightarrow> traverse_javascript_children cfg code_lines path lang rest chunks')"

definition extract_javascript_chunks ::
  "tree_sitter_config \<Rightarrow> node \<Rightarrow> string list \<Rightarrow> string \<Rightarrow> string
     \<Rightarrow> py_error + code_chunk list" where
  "extract_javascript_chunks cfg root_node code_lines path lang =
     traverse_javascript cfg code_lines path lang root_node []"

text \<open>
  \<open>traverse\<close> of \<open>_extract_java_chunks\<close>; \<open>parent_class\<close> is None in every call,
  so a method chunk has no parent context.
\<close>

fun traverse_java ::
  "tree_sitter_config \<Rightarrow> string list \<Rightarrow> string \<Rightarrow> node \<Rightarrow> string option \<Rightarrow> code_chunk list
     \<Rightarrow> py_error + code_chunk list"
and traverse_java_children ::
  "tree_sitter_config \<Rightarrow> string list \<Rightarrow> string \<Rightarrow> node list \<Rightarrow> string option \<Rightarrow> code_chunk list
     \<Rightarrow> py_error + code_chunk list" where
  "traverse_java cfg code_lines path (Node ty sp ep kids fns) parent_class chunks =
     (if ty = ''class_declaration'' \<and> chunk_by_classes cfg then
        (case get_node_text (child_by_field_name (Node ty sp ep kids fns) ''name'') code_lines of
           Inl e \<Rightarrow> Inl e
         | Inr class_name \<Rightarrow>
             traverse_java_children cfg code_lines path kids parent_class
               (chunks @
                [CodeChunk (get_node_content (Node ty sp ep kids fns) code_lines)
                   ''class'' ''java'' path (int (fst sp)) (int (fst ep))
                   (Some class_name) None None None]))
      else if ty = ''method_declaration'' \<and> chunk_by_methods cfg then
        (case get_node_text (child_by_field_name (Node ty sp ep kids fns) ''name'') code_lines of
           Inl e \<Rightarrow> Inl e
         | Inr method_name \<Rightarrow>
             traverse_java_children cfg code_lines path kids parent_class
               (chunks @
                [CodeChunk (get_node_content (Node ty sp ep kids fns) code_lines)
                   ''method'' ''java'' path (int (fst sp)) (int (fst ep))
                   (Some method_name) parent_class None None]))
      else traverse_java_children cfg code_lines path kids parent_class chunks)"
| "traverse_java_children cfg code_lines path [] parent_class chunks = Inr chunks"
| "traverse_java_children cfg code_lines path (child # rest) parent_class chunks =
     (case traverse_java cfg code_lines path child parent_class chunks of
        Inl e \<Rightarrow> Inl e
      | Inr chunks' \<Rightarrow> traverse_java_children cfg code_lines path rest parent_class chunks')"

definition extract_java_chunks ::
  "tree_sitter_config \<Rightarrow> node \<Rightarrow> string list \<Rightarrow> string \<Rightarrow> py_error + code_chunk list" where
  "extract_java_chunks cfg root_node code_lines path =
     traverse_java cfg code_lines path root_node None []"

text \<open>\<open>import_types.get(language, [])\<close> of \<open>_extract_imports\<close>.\<close>

definition import_types :: "string \<Rightarrow> string list" where
  "import_types lang =
     (if lang = ''python'' then [''import_statement'', ''import_from_statement'']
      else if lang = ''javascript'' then [''import_statement'']
      else if lang = ''java'' then [''import_declaration'']
      else [])"

text \<open>The loop of \<open>_extract_imports\<close> over \<open>root_node.children\<close>.\<close>

fun extract_imports_loop ::
  "string list \<Rightarrow> string \<Rightarrow> string \<Rightarrow> node list \<Rightarrow> code_chunk list \<Rightarrow> code_chunk list" where
  "extract_imports_loop code_lines path lang [] chunks = chunks"
| "extract_imports_loop code_lines path lang (n # rest) chunks =
     (if node_type n \<in> set (import_types lang) then
        extract_imports_loop code_lines path lang rest
          (chunks @
           [CodeChunk (get_node_content n code_lines) ''import'' lang path
              (int (fst (start_point n))) (int (fst (end_point n))) None None None None])
      else extract_imports_loop code_lines path lang rest chunks)"

definition extract_imports :: "node \<Rightarrow> string list \<Rightarrow> string \<Rightarrow> string \<Rightarrow> code_chunk list" where
  "extract_imports root_node code_lines path lang =
     extract_imports_loop code_lines path lang (children root_node) []"

subsection \<open>chunk\_file\<close>

text \<open>\<open>_detect_language\<close>: the extension map, \<open>unknown\<close> for any other suffix.\<close>

definition detect_language :: "py_path \<Rightarrow> string" where
  "detect_language fp =
     (case map_of
             [(''.py'', ''python''), (''.js'', ''javascript''), (''.ts'', ''typescript''),
              (''.jsx'', ''javascript''), (''.tsx'', ''typescript''), (''.java'', ''java''),
              (''.cpp'', ''cpp''), (''.cc'', ''cpp''), (''.hpp'', ''cpp''), (''.h'', ''cpp'')]
             (suffix fp) of
        None \<Rightarrow> ''unknown''
      | Some l \<Rightarrow> l)"

text \<open>
  The chunker object: its configuration and \<open>self.parsers\<close>, a dictionary from a
  language to its parser. A parser is the function from the source text to the root node
  of the tree it builds (tree-sitter itself is outside the repository).
\<close>

record chunker =
  config :: tree_sitter_config
  parsers :: "(string \<times> (string \<Rightarrow> node)) list"

text \<open>
  \<open>chunk_file\<close>. A language without a parser returns what the fallback chunker
  returns; otherwise the import chunks and the chunks of the language's extractor are
  filtered by \<open>_is_valid_chunk\<close>.
\<close>

definition chunk_file ::
  "chunker \<Rightarrow> file_system \<Rightarrow> py_path \<Rightarrow> string option \<Rightarrow> py_error + code_chunk list" where
  "chunk_file self fs fp language_arg =
     (let lang = (case language_arg of None \<Rightarrow> detect_language fp | Some l \<Rightarrow> l)
      in case map_of (parsers self) lang of
           None \<Rightarrow> fallback_chunking (config self) fs fp lang
         | Some parser \<Rightarrow>
             (case fs (path_str fp) of
                None \<Rightarrow> Inl FileNotFoundError
              | Some code \<Rightarrow>
                  (let root_node = parser code;
                       code_lines = split_nl code;
                       import_chunks =
                         (if include_imports (config self)
                          then extract_imports root_node code_lines (path_str fp) lang
                          else [])
                   in case (if lang = ''python'' then
                              extract_python_chunks (config self) root_node code_lines (path_str fp)
                            else if lang = ''javascript'' \<or> lang = ''typescript'' then
                              extract_javascript_chunks (config self) root_node code_lines
                                (path_str fp) lang
                            else if lang = ''java'' then
                              extract_java_chunks (config self) root_node code_lines (path_str fp)
                            else Inr []) of
                        Inl e \<Rightarrow> Inl e
                      | Inr chunks \<Rightarrow>
                          Inr (filter (is_valid_chunk (config self)) (import_chunks @ chunks)))))"

section \<open>vector\_store.py\<close>

subsection \<open>The collection\<close>

text \<open>
  ChromaDB is outside the repository; the collection is modelled by the contract its
  documentation states, as far as the code meets it. The state of a collection is the
  records it holds (id, document, metadata), with unique ids, in the order they were
  inserted, and the \<open>collection.add\<close> calls made on it so far, each with its three
  parallel argument lists.

  \<open>collection.add\<close> validates the ids before it writes anything: every id must be a
  string (ValueError otherwise) and the ids of one call must be pairwise different
  (DuplicateIDError otherwise). A call that passes inserts the records whose id the
  collection does not hold yet; a record whose id is already held is ignored. So
  \<open>add\<close> never overwrites: that is what \<open>collection.upsert\<close> does, which the code
  does not call. An exception leaves the records of the earlier calls in the collection.

  \<open>collection.query\<close> is a function that returns, for the one query text, the ranked
  ids with their distances, documents and metadata (\<open>results['ids'][0]\<close>,
  \<open>results['distances'][0]\<close>, ...).
\<close>

record add_call =
  add_ids :: "string option list"
  add_documents :: "string list"
  add_metadatas :: "dict list"

record collection =
  held_records :: "(string \<times> string \<times> dict) list"
  add_calls :: "add_call list"

text \<open>The records of a call are inserted in order; an id that is already held is skipped.\<close>

fun insert_new ::
  "(string \<times> string \<times> dict) list \<Rightarrow> (string \<times> string \<times> dict) list
     \<Rightarrow> (string \<times> string \<times> dict) list" where
  "insert_new hs [] = hs"
| "insert_new hs ((i, d, m) # rest) =
     (if i \<in> set (map fst hs) then insert_new hs rest
      else insert_new (hs @ [(i, d, m)]) rest)"

text \<open>
  \<open>collection.add(ids=..., documents=..., metadatas=...)\<close>: the collection after the
  call, and the exception if the call raised.
\<close>

definition collection_add :: "collection \<Rightarrow> add_call \<Rightarrow> collection \<times> (py_error + unit)" where
  "collection_add coll call =
     (case those (add_ids call) of
        None \<Rightarrow> (coll\<lparr>add_calls := add_calls coll @ [call]\<rparr>, Inl ValueError)
      | Some ks \<Rightarrow>
          if \<not> distinct ks then
            (coll\<lparr>add_calls := add_calls coll @ [call]\<rparr>, Inl DuplicateIDError)
          else
            (coll\<lparr>held_records :=
                     insert_new (held_records coll)
                       (zip ks (zip (add_documents call) (add_metadatas call))),
                   add_calls := add_calls coll @ [call]\<rparr>, Inr ()))"

record 'f query_result =
  ids :: "string list"
  distances :: "'f list"
  documents :: "string list"
  metadatas :: "dict list"

record 'f chroma_config =
  top_k :: int
  similarity_threshold :: 'f

subsection \<open>add\_chunks\<close>

text \<open>The metadata dictionary \<open>add_chunks\<close> builds for a chunk.\<close>

definition chunk_metadata :: "code_chunk \<Rightarrow> dict" where
  "chunk_metadata chunk =
     dict_merge
       [(''chunk_type'', MStr (chunk_type chunk)),
        (''language'', MStr (language chunk)),
        (''file_path'', MStr (file_path chunk)),
        (''start_line'', MInt (start_line chunk)),
        (''end_line'', MInt (end_line chunk)),
        (''name'', MStr (case name chunk of None \<Rightarrow> [] | Some s \<Rightarrow> s)),
        (''parent_context'', MStr (case parent_context chunk of None \<Rightarrow> [] | Some s \<Rightarrow> s))]
       (metadata chunk)"

text \<open>
  The loop \<open>for i in range(0, len(chunks), batch_size)\<close> for a positive
  \<open>batch_size\<close>: \<open>i\<close> is the loop variable, the collection and \<open>total_added\<close> are
  passed through. An exception of \<open>collection.add\<close> ends the loop and is the outcome.
\<close>

function add_chunks_loop ::
  "code_chunk list \<Rightarrow> nat \<Rightarrow> nat \<Rightarrow> collection \<Rightarrow> int \<Rightarrow> collection \<times> (py_error + int)" where
  "add_chunks_loop chunks batch_size i coll total_added =
     (if batch_size = 0 \<or> length chunks \<le> i then (coll, Inr total_added)
      else
        (let batch = slice chunks i (i + batch_size)
         in case collection_add coll
                   \<lparr>add_ids = map chunk_id batch,
                    add_documents = map content batch,
                    add_metadatas = map chunk_metadata batch\<rparr> of
              (coll', Inl e) \<Rightarrow> (coll', Inl e)
            | (coll', Inr u) \<Rightarrow>
                add_chunks_loop chunks batch_size (i + batch_size) coll'
                  (total_added + int (length batch))))"
  by pat_completeness auto
termination
  by (relation "measure (\<lambda>(chunks, batch_size, i, coll, total_added). length chunks - i)") auto

declare add_chunks_loop.simps [simp del]

text \<open>
  \<open>add_chunks\<close>: the collection after the call, and the number it returns or the
  exception it raises. \<open>range\<close> raises ValueError for a step of zero and is empty for a
  negative step.
\<close>

definition add_chunks ::
  "collection \<Rightarrow> code_chunk list \<Rightarrow> int \<Rightarrow> collection \<times> (py_error + int)" where
  "add_chunks coll chunks batch_size =
     (if chunks = [] then (coll, Inr 0)
      else if batch_size = 0 then (coll, Inl ValueError)
      else if batch_size < 0 then (coll, Inr 0)
      else add_chunks_loop chunks (nat batch_size) 0 coll 0)"

subsection \<open>search\<close>

record 'f search_result =
  res_chunk_id :: string
  res_content :: string
  res_metadata :: dict
  res_similarity :: 'f
  res_rank :: int

text \<open>
  The loop of \<open>search\<close> over \<open>enumerate(results['ids'][0])\<close>: the ids still to visit,
  the index \<open>i\<close> of the next one, and \<open>retrieved_chunks\<close>. The distance is read for
  every id, the document and the metadata only for one that passes the threshold; an
  index beyond a list raises IndexError.
\<close>

fun search_loop ::
  "'f::{one, minus, ord} \<Rightarrow> 'f query_result \<Rightarrow> string list \<Rightarrow> nat \<Rightarrow> 'f search_result list
     \<Rightarrow> py_error + 'f search_result list" where
  "search_loop threshold results [] i retrieved_chunks = Inr retrieved_chunks"
| "search_loop threshold results (cid # rest) i retrieved_chunks =
     (case py_index (distances results) i of
        Inl e \<Rightarrow> Inl e
      | Inr distance \<Rightarrow>
          (let sim = 1 - distance
           in if sim \<ge> threshold then
                (case py_index (documents results) i of
                   Inl e \<Rightarrow> Inl e
                 | Inr doc \<Rightarrow>
                     (case py_index (metadatas results) i of
                        Inl e \<Rightarrow> Inl e
                      | Inr meta \<Rightarrow>
                          search_loop threshold results rest (Suc i)
                            (retrieved_chunks @
                             [\<lparr>res_chunk_id = cid, res_content = doc, res_metadata = meta,
                               res_similarity = sim, res_rank = int i + 1\<rparr>])))
              else search_loop threshold results rest (Suc i) retrieved_chunks))"

text \<open>
  \<open>search\<close>: the defaults come from the configuration, the collection is asked for
  \<open>top_k * 2\<close> results, and the filtered list is cut by the slice \<open>[:top_k]\<close>.
\<close>

definition search ::
  "'f::{one, minus, ord} chroma_config \<Rightarrow> (string \<Rightarrow> int \<Rightarrow> dict option \<Rightarrow> 'f query_result)
     \<Rightarrow> string \<Rightarrow> int option \<Rightarrow> dict option \<Rightarrow> 'f option \<Rightarrow> py_error + 'f search_result list" where
  "search cfg collection_query query top_k_arg filter_dict threshold_arg =
     (let k = (case top_k_arg of None \<Rightarrow> top_k cfg | Some n \<Rightarrow> n);
          threshold = (case threshold_arg of None \<Rightarrow> similarity_threshold cfg | Some t \<Rightarrow> t);
          results = collection_query query (k * 2) filter_dict
      in case (if ids results \<noteq> [] then search_loop threshold results (ids results) 0 []
               else Inr []) of
           Inl e \<Rightarrow> Inl e
         | Inr retrieved_chunks \<Rightarrow> Inr (slice_to retrieved_chunks k))"

text \<open>
  The search as the specification words it: every candidate gets its 1-based rank in the
  store's list and the similarity \<open>1 - distance\<close>; the candidates at or above the
  threshold are kept in the store's order, and the first \<open>top_k\<close> of them are returned.
\<close>

definition candidates :: "'f::{one, minus, ord} query_result \<Rightarrow> 'f search_result list" where
  "candidates results =
     map (\<lambda>i. \<lparr>res_chunk_id = ids results ! i, res_content = documents results ! i,
               res_metadata = metadatas results ! i,
               res_similarity = 1 - distances results ! i, res_rank = int i + 1\<rparr>)
       [0 ..< length (ids results)]"

definition search_spec :: "'f::{one, minus, ord} \<Rightarrow> nat \<Rightarrow> 'f query_result \<Rightarrow> 'f search_result list" where
  "search_spec threshold k results =
     take k (filter (\<lambda>r. res_similarity r \<ge> threshold) (candidates results))"

subsection \<open>import\_chunks\<close>

text \<open>
  One record of an export file, as \<open>export_chunks\<close> writes it: the id, the document
  and the metadata dictionary that \<open>add_chunks\<close> stored.
\<close>

record chunk_record =
  rec_id :: string
  rec_content :: string
  rec_metadata :: dict

text \<open>
  The fields of \<open>CodeChunk\<close> are typed as the dataclass annotates them. Python stores
  whatever JSON value the record holds; a value of another type than the annotation has
  no counterpart in the typed chunk, and the model reports such a record as SchemaError.
\<close>

definition str_item :: "dict \<Rightarrow> string \<Rightarrow> py_error + string" where
  "str_item d k =
     (case dict_item d k of
        Inl e \<Rightarrow> Inl e
      | Inr (MStr s) \<Rightarrow> Inr s
      | Inr _ \<Rightarrow> Inl SchemaError)"

definition int_item :: "dict \<Rightarrow> string \<Rightarrow> py_error + int" where
  "int_item d k =
     (case dict_item d k of
        Inl e \<Rightarrow> Inl e
      | Inr (MInt i) \<Rightarrow> Inr i
      | Inr _ \<Rightarrow> Inl SchemaError)"

definition str_get :: "dict \<Rightarrow> string \<Rightarrow> py_error + string option" where
  "str_get d k =
     (case dict_get d k of
        None \<Rightarrow> Inr None
      | Some (MStr s) \<Rightarrow> Inr (Some s)
      | Some _ \<Rightarrow> Inl SchemaError)"

text \<open>The body of the loop of \<open>import_chunks\<close>: one record becomes one chunk.\<close>

definition import_chunk :: "chunk_record \<Rightarrow> py_error + code_chunk" where
  "import_chunk chunk_data =
     (let meta = rec_metadata chunk_data
      in case str_item meta ''chunk_type'' of Inl e \<Rightarrow> Inl e | Inr ty \<Rightarrow>
         case str_item meta ''language'' of Inl e \<Rightarrow> Inl e | Inr lang \<Rightarrow>
         case str_item meta ''file_path'' of Inl e \<Rightarrow> Inl e | Inr path \<Rightarrow>
         case int_item meta ''start_line'' of Inl e \<Rightarrow> Inl e | Inr sl \<Rightarrow>
         case int_item meta ''end_line'' of Inl e \<Rightarrow> Inl e | Inr el \<Rightarrow>
         case str_get meta ''name'' of Inl e \<Rightarrow> Inl e | Inr nm \<Rightarrow>
         case str_get meta ''parent_context'' of Inl e \<Rightarrow> Inl e | Inr parent \<Rightarrow>
           Inr (CodeChunk (rec_content chunk_data) ty lang path sl el nm parent None
                  (Some (rec_id chunk_data))))"

fun import_chunks_loop :: "chunk_record list \<Rightarrow> code_chunk list \<Rightarrow> py_error + code_chunk list" where
  "import_chunks_loop [] chunks = Inr chunks"
| "import_chunks_loop (chunk_data # rest) chunks =
     (case import_chunk chunk_data of
        Inl e \<Rightarrow> Inl e
      | Inr chunk \<Rightarrow> import_chunks_loop rest (chunks @ [chunk]))"

text \<open>
  \<open>import_chunks\<close>, on the parsed list of records: the chunks are rebuilt and handed to
  \<open>add_chunks\<close> with its default batch size. The result is the collection after the
  call, and the exception if one was raised.
\<close>

definition import_chunks ::
  "collection \<Rightarrow> chunk_record list \<Rightarrow> collection \<times> (py_error + unit)" where
  "import_chunks coll chunks_data =
     (case import_chunks_loop chunks_data [] of
        Inl e \<Rightarrow> (coll, Inl e)
      | Inr chunks \<Rightarrow>
          (case add_chunks coll chunks 100 of
             (coll', Inl e) \<Rightarrow> (coll', Inl e)
           | (coll', Inr n) \<Rightarrow> (coll', Inr ())))"

section \<open>A class with one method, as tree-sitter parses it\<close>

text \<open>
  The Python file
  \<^verbatim>\<open>class C:\<close>
  \<^verbatim>\<open>    def m(self):\<close>
  \<^verbatim>\<open>        return 1\<close>
  and its syntax tree under the tree-sitter Python grammar: a \<open>class_definition\<close> has the
  children \<open>class\<close>, the name, \<open>:\<close> and the body, a \<open>block\<close>; the method is a child of
  the block, not of the class node.
\<close>

definition class_c_lines :: "string list" where
  "class_c_lines = [''class C:'', ''    def m(self):'', ''        return 1'']"

definition method_m :: node where
  "method_m =
     Node ''function_definition'' (1, 4) (2, 16)
       [Node ''def'' (1, 4) (1, 7) [] [],
        Node ''identifier'' (1, 8) (1, 9) [] [],
        Node ''parameters'' (1, 9) (1, 15)
          [Node ''('' (1, 9) (1, 10) [] [], Node ''identifier'' (1, 10) (1, 14) [] [],
           Node '')'' (1, 14) (1, 15) [] []] [],
        Node '':'' (1, 15) (1, 16) [] [],
        Node ''block'' (2, 8) (2, 16)
          [Node ''return_statement'' (2, 8) (2, 16)
             [Node ''return'' (2, 8) (2, 14) [] [], Node ''integer'' (2, 15) (2, 16) [] []] []] []]
       [(''name'', 1), (''parameters'', 2), (''body'', 4)]"

definition class_c_tree :: node where
  "class_c_tree =
     Node ''module'' (0, 0) (2, 16)
       [Node ''class_definition'' (0, 0) (2, 16)
          [Node ''class'' (0, 0) (0, 5) [] [],
           Node ''identifier'' (0, 6) (0, 7) [] [],
           Node '':'' (0, 7) (0, 8) [] [],
           Node ''block'' (1, 4) (2, 16) [method_m] []]
          [(''name'', 1), (''body'', 3)]] []"

text \<open>
  The same class as a tree in which the method is a direct child of the class node (the
  shape the sweep over \<open>node.children\<close> looks for).
\<close>

definition class_c_flat :: node where
  "class_c_flat =
     Node ''module'' (0, 0) (2, 16)
       [Node ''class_definition'' (0, 0) (2, 16)
          [Node ''identifier'' (0, 6) (0, 7) [] [], method_m]
          [(''name'', 0)]] []"

section \<open>An import inside a function body\<close>

text \<open>
  The Python file
  \<^verbatim>\<open>import os\<close>
  \<^verbatim>\<open>def f():\<close>
  \<^verbatim>\<open>    import sys\<close>
  and its syntax tree: one import statement is a child of the root, the other a child of
  the block of \<open>f\<close>.
\<close>

definition nested_import_code :: string where
  "nested_import_code = ''import os\<newline>def f():\<newline>    import sys''"

definition nested_import_tree :: node where
  "nested_import_tree =
     Node ''module'' (0, 0) (2, 14)
       [Node ''import_statement'' (0, 0) (0, 9)
          [Node ''import'' (0, 0) (0, 6) [] [],
           Node ''dotted_name'' (0, 7) (0, 9) [Node ''identifier'' (0, 7) (0, 9) [] []] []]
          [(''name'', 1)],
        Node ''function_definition'' (1, 0) (2, 14)
          [Node ''def'' (1, 0) (1, 3) [] [],
           Node ''identifier'' (1, 4) (1, 5) [] [],
           Node ''parameters'' (1, 5) (1, 7)
             [Node ''('' (1, 5) (1, 6) [] [], Node '')'' (1, 6) (1, 7) [] []] [],
           Node '':'' (1, 7) (1, 8) [] [],
           Node ''block'' (2, 4) (2, 14)
             [Node ''import_statement'' (2, 4) (2, 14)
                [Node ''import'' (2, 4) (2, 10) [] [],
                 Node ''dotted_name'' (2, 11) (2, 14)
                   [Node ''identifier'' (2, 11) (2, 14) [] []] []]
                [(''name'', 1)]] []]
          [(''name'', 1), (''parameters'', 2), (''body'', 4)]] []"

subsection \<open>Batches, as the specification words them\<close>

text \<open>
  The partition of a list into consecutive batches of a fixed size, the last one
  possibly smaller; and the \<open>collection.add\<close> call that \<open>add_chunks\<close> makes for a batch.
\<close>

function batches :: "nat \<Rightarrow> 'a list \<Rightarrow> 'a list list" where
  "batches n xs = (if n = 0 \<or> xs = [] then [] else take n xs # batches n (drop n xs))"
  by pat_completeness auto
termination
  by (relation "measure (\<lambda>(n, xs). length xs)") auto

declare batches.simps [simp del]

definition add_call_of :: "code_chunk list \<Rightarrow> add_call" where
  "add_call_of batch =
     \<lparr>add_ids = map chunk_id batch, add_documents = map content batch,
      add_metadatas = map chunk_metadata batch\<rparr>"

text \<open>
  The records that a batch brings to the collection, and the condition under which
  \<open>collection.add\<close> accepts a batch: every chunk has an id, and no id occurs twice.
\<close>

definition entries_of :: "code_chunk list \<Rightarrow> (string \<times> string \<times> dict) list" where
  "entries_of batch =
     concat (map (\<lambda>c. case chunk_id c of
                         None \<Rightarrow> []
                       | Some i \<Rightarrow> [(i, content c, chunk_metadata c)]) batch)"

definition addable :: "code_chunk list \<Rightarrow> bool" where
  "addable batch =
     (list_all (\<lambda>c. chunk_id c \<noteq> None) batch \<and> distinct (map chunk_id batch))"

text \<open>
  For worked examples: a chunk with a given id and content, as \<open>import_chunks\<close> or a
  caller of \<open>update_chunk\<close> builds one, and a collection that holds nothing.
\<close>

definition example_chunk :: "string \<Rightarrow> string \<Rightarrow> code_chunk" where
  "example_chunk i s =
     CodeChunk s ''text_block'' ''unknown'' ''notes.txt'' 0 0 None None None (Some i)"

definition empty_collection :: collection where
  "empty_collection = \<lparr>held_records = [], add_calls = []\<rparr>"

text \<open>
  What the code expects of a query result: the four lists are parallel, one entry per
  returned id.
\<close>

definition well_formed :: "'f query_result \<Rightarrow> bool" where
  "well_formed results =
     (length (distances results) = length (ids results)
      \<and> length (documents results) = length (ids results)
      \<and> length (metadatas results) = length (ids results))"

text \<open>
  The retrieval defaults of config.py, and the three ranked candidates of the
  specification's example (similarities 0.9, 0.05 and 0.6, that is distances 0.1, 0.95
  and 0.4), with the numbers read as reals.
\<close>

definition default_chroma_config :: "real chroma_config" where
  "default_chroma_config = \<lparr>top_k = 8, similarity_threshold = 0.1\<rparr>"

definition abc_results :: "real query_result" where
  "abc_results =
     \<lparr>ids = [''A'', ''B'', ''C''], distances = [0.1, 0.95, 0.4],
      documents = [''doc A'', ''doc B'', ''doc C''], metadatas = [[], [], []]\<rparr>"

definition far_results :: "real query_result" where
  "far_results =
     \<lparr>ids = [''A'', ''B''], distances = [0.95, 0.99],
      documents = [''doc A'', ''doc B''], metadatas = [[], []]\<rparr>"

definition no_results :: "real query_result" where
  "no_results = \<lparr>ids = [], distances = [], documents = [], metadatas = []\<rparr>"

text \<open>
  An exported record with the metadata \<open>add_chunks\<close> writes for a function chunk, under
  a given stored id, and the chunk \<open>import_chunks\<close> rebuilds from it.
\<close>

definition legacy_record :: "string \<Rightarrow> chunk_record" where
  "legacy_record i =
     \<lparr>rec_id = i, rec_content = ''def f(): pass'',
      rec_metadata =
        [(''chunk_type'', MStr ''function''), (''language'', MStr ''python''),
         (''file_path'', MStr ''a.py''), (''start_line'', MInt 0), (''end_line'', MInt 0),
         (''name'', MStr ''f''), (''parent_context'', MStr []),
         (''has_docstring'', MBool False)]\<rparr>"

definition legacy_chunk :: "string \<Rightarrow> code_chunk" where
  "legacy_chunk i =
     CodeChunk ''def f(): pass'' ''function'' ''python'' ''a.py'' 0 0 (Some ''f'') (Some [])
       None (Some i)"

section \<open>Properties\<close>

lemma CodeChunk_sel [simp]:
  "content (CodeChunk c ty lang path sl el nm par meta cid) = c"
  "chunk_type (CodeChunk c ty lang path sl el nm par meta cid) = ty"
  "language (CodeChunk c ty lang path sl el nm par meta cid) = lang"
  "file_path (CodeChunk c ty lang path sl el nm par meta cid) = path"
  "start_line (CodeChunk c ty lang path sl el nm par meta cid) = sl"
  "end_line (CodeChunk c ty lang path sl el nm par meta cid) = el"
  "name (CodeChunk c ty lang path sl el nm par meta cid) = nm"
  "parent_context (CodeChunk c ty lang path sl el nm par meta cid) = par"
  by (simp_all add: CodeChunk_def post_init_def)

lemma fallback_loop_windows:
  "length acc \<le> i \<Longrightarrow>
   fst (fallback_loop cfg path lang rest i acc n chunks)
     @ (if snd (fallback_loop cfg path lang rest i acc n chunks) \<noteq> [] then
          [CodeChunk (join_nl (snd (fallback_loop cfg path lang rest i acc n chunks)))
             ''text_block'' lang path
             (int (i + length rest)
                - int (length (snd (fallback_loop cfg path lang rest i acc n chunks))))
             (int (i + length rest) - 1) None None None None]
        else [])
   = chunks @ text_blocks path lang (i - length acc)
                (window_lines (max_chunk_size cfg) rest acc n)"
proof (induction rest arbitrary: i acc n chunks)
  case Nil
  then show ?case by (simp add: of_nat_diff)
next
  case (Cons l rest)
  show ?case
  proof (cases "n + int (length l) \<ge> max_chunk_size cfg")
    case True
    have "length ([]::string list) \<le> Suc i" by simp
    from Cons.IH [OF this, where n = 0 and chunks = "chunks @ [CodeChunk (join_nl (acc @ [l]))
        ''text_block'' lang path (int i - int (length (acc @ [l])) + 1) (int i)
        None None None None]"] Cons.prems True show ?thesis
      by (auto simp add: Let_def of_nat_diff split: if_splits)
  next
    case False
    have "length (acc @ [l]) \<le> Suc i" using Cons.prems by simp
    from Cons.IH [OF this, where n = "n + int (length l)" and chunks = chunks] False show ?thesis
      by (auto simp add: Let_def split: if_splits)
  qed
qed

lemma fallback_chunking_windows:
  assumes "fs (path_str fp) = Some src"
  shows "fallback_chunking cfg fs fp lang
         = Inr (text_blocks (path_str fp) lang 0
                  (window_lines (max_chunk_size cfg) (split_nl src) [] 0))"
proof -
  have "length ([]::string list) \<le> 0" by simp
  from fallback_loop_windows [OF this, of cfg "path_str fp" lang "split_nl src" 0 "[]"] assms
  show ?thesis
    by (auto simp add: fallback_chunking_def Let_def split: prod.splits if_splits)
qed

lemma split_nl_not_Nil [simp]: "split_nl s \<noteq> []"
  by (induction s) (auto split: list.splits)

lemma join_split_nl [simp]: "join_nl (split_nl s) = s"
proof (induction s)
  case Nil
  show ?case by simp
next
  case (Cons c s)
  obtain l ls where sp: "split_nl s = l # ls"
    by (cases "split_nl s") auto
  with Cons show ?case
    by (cases ls) auto
qed

lemma join_nl_Cons: "ls \<noteq> [] \<Longrightarrow> join_nl (l # ls) = l @ CHR 0x0A # join_nl ls"
  by (cases ls) auto

lemma join_nl_append:
  "xs \<noteq> [] \<Longrightarrow> ys \<noteq> [] \<Longrightarrow> join_nl (xs @ ys) = join_nl xs @ CHR 0x0A # join_nl ys"
proof (induction xs)
  case Nil
  then show ?case by simp
next
  case (Cons x xs)
  show ?case
  proof (cases "xs = []")
    case True
    with Cons.prems show ?thesis by (simp add: join_nl_Cons)
  next
    case False
    with Cons show ?thesis by (simp add: join_nl_Cons)
  qed
qed

lemma join_nl_concat:
  "list_all (\<lambda>g. g \<noteq> []) gs \<Longrightarrow> join_nl (map join_nl gs) = join_nl (concat gs)"
proof (induction gs)
  case Nil
  show ?case by simp
next
  case (Cons g gs)
  show ?case
  proof (cases "gs = []")
    case True
    then show ?thesis by simp
  next
    case False
    then obtain h hs where gs: "gs = h # hs" by (cases gs) auto
    with Cons.prems have ne: "g \<noteq> []" "concat gs \<noteq> []" by auto
    from Cons False ne show ?thesis
      by (simp add: join_nl_Cons join_nl_append)
  qed
qed

lemma window_lines_concat: "concat (window_lines mx ls acc n) = acc @ ls"
  by (induction ls arbitrary: acc n) auto

lemma window_lines_nonempty: "list_all (\<lambda>g. g \<noteq> []) (window_lines mx ls acc n)"
  by (induction ls arbitrary: acc n) auto

lemma text_blocks_content [simp]: "map content (text_blocks path lang start gs) = map join_nl gs"
  by (induction gs arbitrary: start) auto

lemma text_blocks_type:
  "list_all (\<lambda>c. chunk_type c = ''text_block'') (text_blocks path lang start gs)"
  by (induction gs arbitrary: start) auto

lemma text_blocks_cover:
  "list_all (\<lambda>g. g \<noteq> []) gs \<Longrightarrow>
   spans_cover (int start) (text_blocks path lang start gs) (int (start + length (concat gs)))"
proof (induction gs arbitrary: start)
  case Nil
  show ?case by simp
next
  case (Cons g gs)
  from Cons.prems have "g \<noteq> []" "list_all (\<lambda>g. g \<noteq> []) gs" by auto
  with Cons.IH [of "start + length g"] show ?case
    by (cases g) (auto simp add: algebra_simps)
qed

lemma text_blocks_span:
  "length pre = start \<Longrightarrow>
   list_all (\<lambda>c. content c = join_nl (span_lines (pre @ concat gs) c))
     (text_blocks path lang start gs)"
proof (induction gs arbitrary: start pre)
  case Nil
  show ?case by simp
next
  case (Cons g gs)
  have "length (pre @ g) = start + length g" using Cons.prems by simp
  from Cons.IH [OF this] Cons.prems show ?case
    by (simp add: span_lines_def slice_def nat_add_distrib)
qed


lemma split_nl_line: "CHR 0x0A \<notin> set l \<Longrightarrow> split_nl l = [l]"
  by (induction l) auto

lemma split_nl_append: "CHR 0x0A \<notin> set l \<Longrightarrow> split_nl (l @ CHR 0x0A # s) = l # split_nl s"
  by (induction l) auto

lemma split_join_nl:
  "ls \<noteq> [] \<Longrightarrow> list_all (\<lambda>l. CHR 0x0A \<notin> set l) ls \<Longrightarrow> split_nl (join_nl ls) = ls"
proof (induction ls rule: join_nl.induct)
  case 1
  then show ?case by simp
next
  case (2 l)
  then show ?case by (simp add: split_nl_line)
next
  case (3 l l' ls)
  then show ?case by (simp add: split_nl_append)
qed

lemma window_lines_three:
  assumes "int (length l1) = mx" "int (length l2) = mx" "int (length l3) \<le> mx"
  shows "window_lines mx [l1, l2, l3] [] 0 = [[l1], [l2], [l3]]"
  using assms by simp

text \<open>
  C10. For every file, the chunks of the fallback chunker tile the lines of the file:
  the first span starts at line 0, every span is non-empty and starts right after the
  previous one, the last one ends at the last line; the content of a chunk is the lines
  of its span joined by newlines; every chunk is a \<open>text_block\<close>; and the contents,
  joined by single newlines, are the text of the file as it was read.
\<close>

theorem fallback_chunks_tile_file:
  assumes "fs (path_str fp) = Some src"
  shows "\<exists>chunks. fallback_chunking cfg fs fp lang = Inr chunks
           \<and> spans_cover 0 chunks (int (length (split_nl src)))
           \<and> list_all (\<lambda>c. content c = join_nl (span_lines (split_nl src) c)) chunks
           \<and> list_all (\<lambda>c. chunk_type c = ''text_block'') chunks
           \<and> join_nl (map content chunks) = src"
proof -
  let ?gs = "window_lines (max_chunk_size cfg) (split_nl src) [] 0"
  let ?chunks = "text_blocks (path_str fp) lang 0 ?gs"
  have run: "fallback_chunking cfg fs fp lang = Inr ?chunks"
    by (rule fallback_chunking_windows [where fs = fs and fp = fp and src = src, OF assms])
  have cat: "concat ?gs = split_nl src"
    by (simp add: window_lines_concat)
  have ne: "list_all (\<lambda>g. g \<noteq> []) ?gs"
    by (rule window_lines_nonempty)
  have cover: "spans_cover 0 ?chunks (int (length (split_nl src)))"
    using text_blocks_cover [OF ne, of 0 "path_str fp" lang] cat by simp
  have span: "list_all (\<lambda>c. content c = join_nl (span_lines (split_nl src) c)) ?chunks"
    using text_blocks_span [of "[]" 0 ?gs "path_str fp" lang] cat by simp
  have ty: "list_all (\<lambda>c. chunk_type c = ''text_block'') ?chunks"
    by (rule text_blocks_type)
  have "join_nl (map content ?chunks) = join_nl (concat ?gs)"
    using join_nl_concat [OF ne] by simp
  then have whole: "join_nl (map content ?chunks) = src"
    using cat by simp
  from run cover span ty whole show ?thesis by blast
qed

theorem fallback_chunks_tile_file_witness:
  "[''notes.txt'' \<mapsto> ''a\<newline>b\<newline>c\<newline>d\<newline>e''] ''notes.txt'' = Some ''a\<newline>b\<newline>c\<newline>d\<newline>e''
   \<and> (\<exists>chunks.
         fallback_chunking (default_config\<lparr>max_chunk_size := 3\<rparr>)
           [''notes.txt'' \<mapsto> ''a\<newline>b\<newline>c\<newline>d\<newline>e'']
           \<lparr>path_str = ''notes.txt'', suffix = ''.txt''\<rparr> ''unknown'' = Inr chunks
         \<and> map content chunks = [''a\<newline>b\<newline>c'', ''d\<newline>e'']
         \<and> map start_line chunks = [0, 3] \<and> map end_line chunks = [2, 4]
         \<and> spans_cover 0 chunks 5
         \<and> join_nl (map content chunks) = ''a\<newline>b\<newline>c\<newline>d\<newline>e'')"
proof -
  let ?src = "''a\<newline>b\<newline>c\<newline>d\<newline>e''"
  let ?fs = "[''notes.txt'' \<mapsto> ?src]"
  let ?fp = "\<lparr>path_str = ''notes.txt'', suffix = ''.txt''\<rparr>"
  have h: "?fs (path_str ?fp) = Some ?src" by simp
  from fallback_chunks_tile_file [where fs = ?fs and fp = ?fp and src = ?src
      and cfg = "default_config\<lparr>max_chunk_size := 3\<rparr>" and lang = "''unknown''", OF h]
  obtain chunks where
    run: "fallback_chunking (default_config\<lparr>max_chunk_size := 3\<rparr>) ?fs ?fp ''unknown'' = Inr chunks"
    and cover: "spans_cover 0 chunks (int (length (split_nl ?src)))"
    and whole: "join_nl (map content chunks) = ?src"
    by blast
  have ev: "fallback_chunking (default_config\<lparr>max_chunk_size := 3\<rparr>) ?fs ?fp ''unknown''
            = Inr (text_blocks ''notes.txt'' ''unknown'' 0 [[''a'', ''b'', ''c''], [''d'', ''e'']])"
    by (simp add: fallback_chunking_windows [where fs = ?fs and fp = ?fp and src = ?src, OF h]
          default_config_def)
  from run ev have c: "chunks = text_blocks ''notes.txt'' ''unknown'' 0 [[''a'', ''b'', ''c''], [''d'', ''e'']]"
    by simp
  have "map content chunks = [''a\<newline>b\<newline>c'', ''d\<newline>e'']"
    "map start_line chunks = [0, 3]" "map end_line chunks = [2, 4]"
    unfolding c by simp_all
  moreover from cover have "spans_cover 0 chunks 5" by simp
  ultimately show ?thesis using run whole h by simp
qed


lemmas eval_defs =
  extract_python_chunks_def class_c_tree_def class_c_flat_def method_m_def class_c_lines_def
  default_config_def extract_function_chunk_def get_node_text_def child_by_field_name_def
  py_index_def slice_def get_node_content_def extract_docstring_def truthy_def Let_def

text \<open>
  C1. On the class \<open>C\<close> with its one method \<open>m\<close>, under the default configuration
  (classes, functions and methods all chunked), the Python extractor yields the class
  chunk and a second chunk for \<open>m\<close> of type \<open>function\<close> with no parent context: no
  chunk has the type \<open>method\<close>, and none names \<open>C\<close> as its parent.
\<close>

theorem class_with_method_yields_no_method_chunk:
  "extract_python_chunks default_config class_c_tree class_c_lines ''c.py''
   = Inr [CodeChunk ''class C:\<newline>    def m(self):\<newline>        return 1'' ''class'' ''python''
            ''c.py'' 0 2 (Some ''C'') None None None,
          CodeChunk ''    def m(self):\<newline>        return 1'' ''function'' ''python''
            ''c.py'' 1 2 (Some ''m'') None (Some [(''has_docstring'', MBool False)]) None]"
  by (simp add: eval_defs)

text \<open>
  When the method is a direct child of the class node, the sweep over the children of
  the class emits it as a method of \<open>C\<close>, and the traversal of the same children emits
  the same node a second time as a function.
\<close>

lemma direct_child_method_emitted_twice:
  "extract_python_chunks default_config class_c_flat class_c_lines ''c.py''
   = Inr [CodeChunk ''class C:\<newline>    def m(self):\<newline>        return 1'' ''class'' ''python''
            ''c.py'' 0 2 (Some ''C'') None None None,
          CodeChunk ''    def m(self):\<newline>        return 1'' ''method'' ''python''
            ''c.py'' 1 2 (Some ''m'') (Some ''C'') (Some [(''has_docstring'', MBool False)]) None,
          CodeChunk ''    def m(self):\<newline>        return 1'' ''function'' ''python''
            ''c.py'' 1 2 (Some ''m'') None (Some [(''has_docstring'', MBool False)]) None]"
  by (simp add: eval_defs)

text \<open>
  C2. A two-character file in a language without a parser: \<open>chunk_file\<close> returns what
  the fallback chunker returns, one chunk of two characters, which the size filter of
  the default configuration (at least 50 characters) rejects.
\<close>

theorem chunk_file_fallback_skips_size_filter:
  "chunk_file \<lparr>config = default_config, parsers = []\<rparr> [''notes.txt'' \<mapsto> ''ab'']
     \<lparr>path_str = ''notes.txt'', suffix = ''.txt''\<rparr> None
   = Inr [CodeChunk ''ab'' ''text_block'' ''unknown'' ''notes.txt'' 0 0 None None None None]
   \<and> \<not> is_valid_chunk default_config
         (CodeChunk ''ab'' ''text_block'' ''unknown'' ''notes.txt'' 0 0 None None None None)"
  by (simp add: chunk_file_def detect_language_def fallback_chunking_def is_valid_chunk_def
      default_config_def Let_def)

text \<open>On the syntax-tree path every chunk that \<open>chunk_file\<close> returns passed the filter.\<close>

lemma chunk_file_parsed_valid:
  assumes "map_of (parsers self) lang = Some parser"
    and "chunk_file self fs fp (Some lang) = Inr chunks"
  shows "list_all (is_valid_chunk (config self)) chunks"
  using assms
  by (auto simp add: chunk_file_def Let_def list_all_iff split: option.splits sum.splits if_splits)


text \<open>
  C5 (as amended). The fallback chunker does what the specification's algorithm says on
  the lines of the file: it returns one \<open>text_block\<close> chunk per window of
  \<open>window_lines\<close>. The count that is compared with \<open>max_chunk_size\<close> is the sum of
  the line lengths, so windows follow the lines: a file of three lines without
  newlines in them, the first two of exactly \<open>max_chunk_size\<close> characters and the third
  of at most that many, yields exactly three chunks, one per line.
\<close>

theorem fallback_accumulates_lines:
  assumes "fs (path_str fp) = Some src"
  shows "fallback_chunking cfg fs fp lang
           = Inr (text_blocks (path_str fp) lang 0
                    (window_lines (max_chunk_size cfg) (split_nl src) [] 0))
         \<and> (src = join_nl [l1, l2, l3]
              \<and> int (length l1) = max_chunk_size cfg \<and> int (length l2) = max_chunk_size cfg
              \<and> int (length l3) \<le> max_chunk_size cfg
              \<and> CHR 0x0A \<notin> set (l1 @ l2 @ l3)
            \<longrightarrow> fallback_chunking cfg fs fp lang
                  = Inr (text_blocks (path_str fp) lang 0 [[l1], [l2], [l3]])
                \<and> map content (text_blocks (path_str fp) lang 0 [[l1], [l2], [l3]])
                  = [l1, l2, l3])"
proof -
  have run: "fallback_chunking cfg fs fp lang
             = Inr (text_blocks (path_str fp) lang 0
                      (window_lines (max_chunk_size cfg) (split_nl src) [] 0))"
    by (rule fallback_chunking_windows [where fs = fs and fp = fp and src = src, OF assms])
  have three: "fallback_chunking cfg fs fp lang
                 = Inr (text_blocks (path_str fp) lang 0 [[l1], [l2], [l3]])"
    if src: "src = join_nl [l1, l2, l3]"
      and len: "int (length l1) = max_chunk_size cfg" "int (length l2) = max_chunk_size cfg"
        "int (length l3) \<le> max_chunk_size cfg"
      and nl: "CHR 0x0A \<notin> set (l1 @ l2 @ l3)"
  proof -
    have "list_all (\<lambda>l. CHR 0x0A \<notin> set l) [l1, l2, l3]" using nl by simp
    then have "split_nl src = [l1, l2, l3]"
      unfolding src by (intro split_join_nl) simp_all
    moreover have "window_lines (max_chunk_size cfg) [l1, l2, l3] [] 0 = [[l1], [l2], [l3]]"
      using len by (rule window_lines_three)
    ultimately show ?thesis using run by simp
  qed
  have "map content (text_blocks (path_str fp) lang 0 [[l1], [l2], [l3]]) = [l1, l2, l3]"
    by simp
  with run three show ?thesis by blast
qed

theorem fallback_accumulates_lines_witness:
  "[''notes.txt'' \<mapsto> ''abcd\<newline>efgh\<newline>ij''] ''notes.txt'' = Some ''abcd\<newline>efgh\<newline>ij''
   \<and> ''abcd\<newline>efgh\<newline>ij'' = join_nl [''abcd'', ''efgh'', ''ij'']
   \<and> int (length ''abcd\<newline>efgh\<newline>ij'') = 3 * max_chunk_size (default_config\<lparr>max_chunk_size := 4\<rparr>)
   \<and> int (length ''abcd'') = max_chunk_size (default_config\<lparr>max_chunk_size := 4\<rparr>)
   \<and> int (length ''efgh'') = max_chunk_size (default_config\<lparr>max_chunk_size := 4\<rparr>)
   \<and> int (length ''ij'') \<le> max_chunk_size (default_config\<lparr>max_chunk_size := 4\<rparr>)
   \<and> CHR 0x0A \<notin> set (''abcd'' @ ''efgh'' @ ''ij'')
   \<and> fallback_chunking (default_config\<lparr>max_chunk_size := 4\<rparr>)
        [''notes.txt'' \<mapsto> ''abcd\<newline>efgh\<newline>ij'']
        \<lparr>path_str = ''notes.txt'', suffix = ''.txt''\<rparr> ''unknown''
      = Inr (text_blocks ''notes.txt'' ''unknown'' 0 [[''abcd''], [''efgh''], [''ij'']])
   \<and> map content (text_blocks ''notes.txt'' ''unknown'' 0 [[''abcd''], [''efgh''], [''ij'']])
      = [''abcd'', ''efgh'', ''ij'']"
proof -
  let ?src = "''abcd\<newline>efgh\<newline>ij''"
  let ?fs = "[''notes.txt'' \<mapsto> ?src]"
  let ?fp = "\<lparr>path_str = ''notes.txt'', suffix = ''.txt''\<rparr>"
  have h: "?fs (path_str ?fp) = Some ?src" by simp
  from fallback_accumulates_lines [where fs = ?fs and fp = ?fp and src = ?src
      and cfg = "default_config\<lparr>max_chunk_size := 4\<rparr>" and lang = "''unknown''"
      and ?l1.0 = "''abcd''" and ?l2.0 = "''efgh''" and ?l3.0 = "''ij''", OF h]
  show ?thesis by (simp add: default_config_def)
qed

text \<open>
  A file of \<open>3 * max_chunk_size\<close> characters with no newline in it is one line, and the
  fallback chunker returns it as one chunk of \<open>3 * max_chunk_size\<close> characters.
\<close>

theorem fallback_single_line_counterexample:
  "int (length ''aaaaaa'') = 3 * max_chunk_size (default_config\<lparr>max_chunk_size := 2\<rparr>)
   \<and> CHR 0x0A \<notin> set ''aaaaaa''
   \<and> fallback_chunking (default_config\<lparr>max_chunk_size := 2\<rparr>) [''notes.txt'' \<mapsto> ''aaaaaa'']
        \<lparr>path_str = ''notes.txt'', suffix = ''.txt''\<rparr> ''unknown''
      = Inr [CodeChunk ''aaaaaa'' ''text_block'' ''unknown'' ''notes.txt'' 0 0 None None None None]"
  by (simp add: fallback_chunking_def default_config_def Let_def)


subsection \<open>Imports\<close>

lemma extract_imports_loop_eq:
  "extract_imports_loop code_lines path lang ns chunks
   = chunks @
     map (\<lambda>n. CodeChunk (get_node_content n code_lines) ''import'' lang path
                (int (fst (start_point n))) (int (fst (end_point n))) None None None None)
       (filter (\<lambda>n. node_type n \<in> set (import_types lang)) ns)"
  by (induction ns arbitrary: chunks) auto

lemma get_node_content_rows:
  "get_node_content (Node ty sp ep kids fns) code_lines
   = get_node_content (Node ty sp ep [] []) code_lines"
  by (simp add: get_node_content_def)

lemma extract_function_chunk_not_import:
  "extract_function_chunk cfg n code_lines path parent chunks = Inr cs \<Longrightarrow>
   list_all (\<lambda>c. chunk_type c \<noteq> ''import'') chunks \<Longrightarrow>
   list_all (\<lambda>c. chunk_type c \<noteq> ''import'') cs"
  by (auto simp add: extract_function_chunk_def Let_def split: sum.splits if_splits)

lemma extract_methods_not_import:
  "extract_methods cfg code_lines path ns class_name chunks = Inr cs \<Longrightarrow>
   list_all (\<lambda>c. chunk_type c \<noteq> ''import'') chunks \<Longrightarrow>
   list_all (\<lambda>c. chunk_type c \<noteq> ''import'') cs"
proof (induction ns arbitrary: chunks)
  case Nil
  then show ?case by simp
next
  case (Cons n ns)
  then show ?case
    by (auto split: if_splits sum.splits dest: extract_function_chunk_not_import)
qed

lemma traverse_python_not_import:
  "traverse_python cfg code_lines path n parent chunks = Inr cs \<Longrightarrow>
   list_all (\<lambda>c. chunk_type c \<noteq> ''import'') chunks \<Longrightarrow>
   list_all (\<lambda>c. chunk_type c \<noteq> ''import'') cs"
  "traverse_python_children cfg code_lines path ns parent chunks = Inr cs \<Longrightarrow>
   list_all (\<lambda>c. chunk_type c \<noteq> ''import'') chunks \<Longrightarrow>
   list_all (\<lambda>c. chunk_type c \<noteq> ''import'') cs"
proof (induction cfg code_lines path n parent chunks and cfg code_lines path ns parent chunks
    arbitrary: cs and cs rule: traverse_python_traverse_python_children.induct)
  case (1 cfg code_lines path ty sp ep kids fns parent_class chunks)
  show ?case
  proof (cases "ty = ''class_definition'' \<and> chunk_by_classes cfg")
    case True
    from "1.prems"(1) True obtain class_name chunks' where
      nm: "get_node_text (child_by_field_name (Node ty sp ep kids fns) ''name'') code_lines
           = Inr class_name"
      and sweep: "(if chunk_by_methods cfg then
                     extract_methods cfg code_lines path kids class_name
                       (chunks @
                        [CodeChunk (get_node_content (Node ty sp ep kids fns) code_lines)
                           ''class'' ''python'' path (int (fst sp)) (int (fst ep))
                           (Some class_name) None None None])
                   else
                     Inr (chunks @
                        [CodeChunk (get_node_content (Node ty sp ep kids fns) code_lines)
                           ''class'' ''python'' path (int (fst sp)) (int (fst ep))
                           (Some class_name) None None None])) = Inr chunks'"
      and rest: "traverse_python_children cfg code_lines path kids parent_class chunks' = Inr cs"
      by (auto split: sum.splits)
    have "list_all (\<lambda>c. chunk_type c \<noteq> ''import'')
            (chunks @ [CodeChunk (get_node_content (Node ty sp ep kids fns) code_lines)
                         ''class'' ''python'' path (int (fst sp)) (int (fst ep))
                         (Some class_name) None None None])"
      using "1.prems"(2) by simp
    with sweep have "list_all (\<lambda>c. chunk_type c \<noteq> ''import'') chunks'"
      by (auto split: if_splits dest: extract_methods_not_import)
    from "1.IH"(1) [OF True nm sweep rest this] show ?thesis .
  next
    case notclass: False
    show ?thesis
    proof (cases "ty = ''function_definition'' \<and> chunk_by_functions cfg")
      case True
      from "1.prems"(1) notclass True obtain chunks' where
        fn: "extract_function_chunk cfg (Node ty sp ep kids fns) code_lines path
               parent_class chunks = Inr chunks'"
        and rest: "traverse_python_children cfg code_lines path kids parent_class chunks' = Inr cs"
        by (auto split: sum.splits)
      from extract_function_chunk_not_import [OF fn "1.prems"(2)]
      have "list_all (\<lambda>c. chunk_type c \<noteq> ''import'') chunks'" .
      from "1.IH"(2) [OF notclass True fn rest this] show ?thesis .
    next
      case False
      from "1.prems"(1) notclass False
      have rest: "traverse_python_children cfg code_lines path kids parent_class chunks = Inr cs"
        by auto
      from "1.IH"(3) [OF notclass False rest "1.prems"(2)] show ?thesis .
    qed
  qed
next
  case (2 cfg code_lines path parent_class chunks)
  then show ?case by simp
next
  case (3 cfg code_lines path child rest parent_class chunks)
  from "3.prems"(1) obtain chunks' where
    hd: "traverse_python cfg code_lines path child parent_class chunks = Inr chunks'"
    and tl: "traverse_python_children cfg code_lines path rest parent_class chunks' = Inr cs"
    by (auto split: sum.splits)
  from "3.IH"(1) [OF hd "3.prems"(2)]
  have "list_all (\<lambda>c. chunk_type c \<noteq> ''import'') chunks'" .
  from "3.IH"(2) [OF hd tl this] show ?case .
qed


lemma traverse_javascript_not_import:
  "traverse_javascript cfg code_lines path lang n chunks = Inr cs \<Longrightarrow>
   list_all (\<lambda>c. chunk_type c \<noteq> ''import'') chunks \<Longrightarrow>
   list_all (\<lambda>c. chunk_type c \<noteq> ''import'') cs"
  "traverse_javascript_children cfg code_lines path lang ns chunks = Inr cs \<Longrightarrow>
   list_all (\<lambda>c. chunk_type c \<noteq> ''import'') chunks \<Longrightarrow>
   list_all (\<lambda>c. chunk_type c \<noteq> ''import'') cs"
proof (induction cfg code_lines path lang n chunks and cfg code_lines path lang ns chunks
    arbitrary: cs and cs rule: traverse_javascript_traverse_javascript_children.induct)
  case (1 cfg code_lines path lang ty sp ep kids fns chunks)
  show ?case
  proof (cases "(ty = ''function_declaration'' \<or> ty = ''function'') \<and> chunk_by_functions cfg")
    case True
    from "1.prems"(1) True obtain t where
      nm: "get_node_text (child_by_field_name (Node ty sp ep kids fns) ''name'') code_lines = Inr t"
      and rest: "traverse_javascript_children cfg code_lines path lang kids
                   (chunks @
                    [CodeChunk (get_node_content (Node ty sp ep kids fns) code_lines)
                       ''function'' lang path (int (fst sp)) (int (fst ep))
                       (Some (if t = [] then ''anonymous'' else t)) None None None]) = Inr cs"
      by (auto split: sum.splits)
    have "list_all (\<lambda>c. chunk_type c \<noteq> ''import'')
            (chunks @
             [CodeChunk (get_node_content (Node ty sp ep kids fns) code_lines)
                ''function'' lang path (int (fst sp)) (int (fst ep))
                (Some (if t = [] then ''anonymous'' else t)) None None None])"
      using "1.prems"(2) by simp
    from "1.IH"(1) [OF True nm rest this] show ?thesis .
  next
    case notfun: False
    show ?thesis
    proof (cases "ty = ''class_declaration'' \<and> chunk_by_classes cfg")
      case True
      from "1.prems"(1) notfun True obtain class_name where
        nm: "get_node_text (child_by_field_name (Node ty sp ep kids fns) ''name'') code_lines
             = Inr class_name"
        and rest: "traverse_javascript_children cfg code_lines path lang kids
                     (chunks @
                      [CodeChunk (get_node_content (Node ty sp ep kids fns) code_lines)
                         ''class'' lang path (int (fst sp)) (int (fst ep))
                         (Some class_name) None None None]) = Inr cs"
        by (auto split: sum.splits)
      have "list_all (\<lambda>c. chunk_type c \<noteq> ''import'')
              (chunks @
               [CodeChunk (get_node_content (Node ty sp ep kids fns) code_lines)
                  ''class'' lang path (int (fst sp)) (int (fst ep))
                  (Some class_name) None None None])"
        using "1.prems"(2) by simp
      from "1.IH"(2) [OF notfun True nm rest this] show ?thesis .
    next
      case False
      from "1.prems"(1) notfun False
      have rest: "traverse_javascript_children cfg code_lines path lang kids chunks = Inr cs"
        by auto
      from "1.IH"(3) [OF notfun False rest "1.prems"(2)] show ?thesis .
    qed
  qed
next
  case (2 cfg code_lines path lang chunks)
  then show ?case by simp
next
  case (3 cfg code_lines path lang child rest chunks)
  from "3.prems"(1) obtain chunks' where
    hd: "traverse_javascript cfg code_lines path lang child chunks = Inr chunks'"
    and tl: "traverse_javascript_children cfg code_lines path lang rest chunks' = Inr cs"
    by (auto split: sum.splits)
  from "3.IH"(1) [OF hd "3.prems"(2)]
  have "list_all (\<lambda>c. chunk_type c \<noteq> ''import'') chunks'" .
  from "3.IH"(2) [OF hd tl this] show ?case .
qed

lemma traverse_java_not_import:
  "traverse_java cfg code_lines path n parent chunks = Inr cs \<Longrightarrow>
   list_all (\<lambda>c. chunk_type c \<noteq> ''import'') chunks \<Longrightarrow>
   list_all (\<lambda>c. chunk_type c \<noteq> ''import'') cs"
  "traverse_java_children cfg code_lines path ns parent chunks = Inr cs \<Longrightarrow>
   list_all (\<lambda>c. chunk_type c \<noteq> ''import'') chunks \<Longrightarrow>
   list_all (\<lambda>c. chunk_type c \<noteq> ''import'') cs"
proof (induction cfg code_lines path n parent chunks and cfg code_lines path ns parent chunks
    arbitrary: cs and cs rule: traverse_java_traverse_java_children.induct)
  case (1 cfg code_lines path ty sp ep kids fns parent_class chunks)
  show ?case
  proof (cases "ty = ''class_declaration'' \<and> chunk_by_classes cfg")
    case True
    from "1.prems"(1) True obtain class_name where
      nm: "get_node_text (child_by_field_name (Node ty sp ep kids fns) ''name'') code_lines
           = Inr class_name"
      and rest: "traverse_java_children cfg code_lines path kids parent_class
                   (chunks @
                    [CodeChunk (get_node_content (Node ty sp ep kids fns) code_lines)
                       ''class'' ''java'' path (int (fst sp)) (int (fst ep))
                       (Some class_name) None None None]) = Inr cs"
      by (auto split: sum.splits)
    have "list_all (\<lambda>c. chunk_type c \<noteq> ''import'')
            (chunks @
             [CodeChunk (get_node_content (Node ty sp ep kids fns) code_lines)
                ''class'' ''java'' path (int (fst sp)) (int (fst ep))
                (Some class_name) None None None])"
      using "1.prems"(2) by simp
    from "1.IH"(1) [OF True nm rest this] show ?thesis .
  next
    case notclass: False
    show ?thesis
    proof (cases "ty = ''method_declaration'' \<and> chunk_by_methods cfg")
      case True
      from "1.prems"(1) notclass True obtain method_name where
        nm: "get_node_text (child_by_field_name (Node ty sp ep kids fns) ''name'') code_lines
             = Inr method_name"
        and rest: "traverse_java_children cfg code_lines path kids parent_class
                     (chunks @
                      [CodeChunk (get_node_content (Node ty sp ep kids fns) code_lines)
                         ''method'' ''java'' path (int (fst sp)) (int (fst ep))
                         (Some method_name) parent_class None None]) = Inr cs"
        by (auto split: sum.splits)
      have "list_all (\<lambda>c. chunk_type c \<noteq> ''import'')
              (chunks @
               [CodeChunk (get_node_content (Node ty sp ep kids fns) code_lines)
                  ''method'' ''java'' path (int (fst sp)) (int (fst ep))
                  (Some method_name) parent_class None None])"
        using "1.prems"(2) by simp
      from "1.IH"(2) [OF notclass True nm rest this] show ?thesis .
    next
      case False
      from "1.prems"(1) notclass False
      have rest: "traverse_java_children cfg code_lines path kids parent_class chunks = Inr cs"
        by auto
      from "1.IH"(3) [OF notclass False rest "1.prems"(2)] show ?thesis .
    qed
  qed
next
  case (2 cfg code_lines path parent_class chunks)
  then show ?case by simp
next
  case (3 cfg code_lines path child rest parent_class chunks)
  from "3.prems"(1) obtain chunks' where
    hd: "traverse_java cfg code_lines path child parent_class chunks = Inr chunks'"
    and tl: "traverse_java_children cfg code_lines path rest parent_class chunks' = Inr cs"
    by (auto split: sum.splits)
  from "3.IH"(1) [OF hd "3.prems"(2)]
  have "list_all (\<lambda>c. chunk_type c \<noteq> ''import'') chunks'" .
  from "3.IH"(2) [OF hd tl this] show ?case .
qed


lemma filter_import_none:
  "list_all (\<lambda>c. chunk_type c \<noteq> ''import'') cs \<Longrightarrow>
   filter (\<lambda>c. chunk_type c = ''import'') cs = []"
  by (induction cs) auto

lemma extract_imports_all_import:
  "filter (\<lambda>c. chunk_type c = ''import'') (extract_imports root_node code_lines path lang)
   = extract_imports root_node code_lines path lang"
  by (simp add: extract_imports_def extract_imports_loop_eq filter_map o_def)

lemma extract_imports_filter_conj:
  "filter (\<lambda>c. chunk_type c = ''import'' \<and> P c) (extract_imports root_node code_lines path lang)
   = filter P (extract_imports root_node code_lines path lang)"
  by (simp add: extract_imports_def extract_imports_loop_eq filter_map o_def)

text \<open>
  C8. Import extraction is a pass over the direct children of the root: it returns one
  import chunk per child whose type is an import type of the language, in order, and
  nothing else; what lies below the children does not change its result. In what
  \<open>chunk_file\<close> returns on the syntax-tree path, the chunks of type \<open>import\<close> are
  exactly those (after the size filter): the extractors of functions and classes, which
  do walk the nested scopes, never emit an import chunk.
\<close>

theorem imports_only_from_root_children:
  "extract_imports root_node code_lines path lang
     = map (\<lambda>n. CodeChunk (get_node_content n code_lines) ''import'' lang path
                  (int (fst (start_point n))) (int (fst (end_point n))) None None None None)
         (filter (\<lambda>n. node_type n \<in> set (import_types lang)) (children root_node))
   \<and> length (extract_imports root_node code_lines path lang)
     = length (filter (\<lambda>n. node_type n \<in> set (import_types lang)) (children root_node))
   \<and> extract_imports (Node ty sp ep kids fns) code_lines path lang
     = extract_imports
         (Node ty sp ep (map (\<lambda>n. Node (node_type n) (start_point n) (end_point n) [] []) kids) fns)
         code_lines path lang
   \<and> (map_of (parsers self) lang = Some parser \<and> fs (path_str fp) = Some code
        \<and> chunk_file self fs fp (Some lang) = Inr chunks
      \<longrightarrow> filter (\<lambda>c. chunk_type c = ''import'') chunks
          = (if include_imports (config self)
             then filter (is_valid_chunk (config self))
                    (extract_imports (parser code) (split_nl code) (path_str fp) lang)
             else []))"
proof -
  have eq: "extract_imports root_node code_lines path lang
     = map (\<lambda>n. CodeChunk (get_node_content n code_lines) ''import'' lang path
                  (int (fst (start_point n))) (int (fst (end_point n))) None None None None)
         (filter (\<lambda>n. node_type n \<in> set (import_types lang)) (children root_node))"
    for root_node
    by (simp add: extract_imports_def extract_imports_loop_eq)
  have len: "length (extract_imports root_node code_lines path lang)
     = length (filter (\<lambda>n. node_type n \<in> set (import_types lang)) (children root_node))"
    by (simp add: eq)
  have flat: "extract_imports (Node ty sp ep kids fns) code_lines path lang
     = extract_imports
         (Node ty sp ep (map (\<lambda>n. Node (node_type n) (start_point n) (end_point n) [] []) kids) fns)
         code_lines path lang"
    by (simp add: eq filter_map o_def get_node_content_def)
  have whole: "filter (\<lambda>c. chunk_type c = ''import'') chunks
          = (if include_imports (config self)
             then filter (is_valid_chunk (config self))
                    (extract_imports (parser code) (split_nl code) (path_str fp) lang)
             else [])"
    if p: "map_of (parsers self) lang = Some parser" and f: "fs (path_str fp) = Some code"
      and run: "chunk_file self fs fp (Some lang) = Inr chunks"
  proof -
    let ?imports = "if include_imports (config self)
                    then extract_imports (parser code) (split_nl code) (path_str fp) lang else []"
    let ?ext = "if lang = ''python'' then
                  extract_python_chunks (config self) (parser code) (split_nl code) (path_str fp)
                else if lang = ''javascript'' \<or> lang = ''typescript'' then
                  extract_javascript_chunks (config self) (parser code) (split_nl code)
                    (path_str fp) lang
                else if lang = ''java'' then
                  extract_java_chunks (config self) (parser code) (split_nl code) (path_str fp)
                else Inr []"
    from run p f obtain cs where ext: "?ext = Inr cs"
      and chunks: "chunks = filter (is_valid_chunk (config self)) (?imports @ cs)"
      by (auto simp add: chunk_file_def Let_def split: sum.splits)
    have "list_all (\<lambda>c. chunk_type c \<noteq> ''import'') cs"
      using ext
        traverse_python_not_import(1) [of "config self" "split_nl code" "path_str fp"
          "parser code" None "[]" cs]
        traverse_javascript_not_import(1) [of "config self" "split_nl code" "path_str fp" lang
          "parser code" "[]" cs]
        traverse_java_not_import(1) [of "config self" "split_nl code" "path_str fp"
          "parser code" None "[]" cs]
      by (auto simp add: extract_python_chunks_def extract_javascript_chunks_def
          extract_java_chunks_def split: if_splits)
    then have none: "filter (\<lambda>c. chunk_type c = ''import'') cs = []"
      by (rule filter_import_none)
    have "filter (\<lambda>c. chunk_type c = ''import'') chunks
          = filter (is_valid_chunk (config self))
              (filter (\<lambda>c. chunk_type c = ''import'') ?imports
               @ filter (\<lambda>c. chunk_type c = ''import'') cs)"
      unfolding chunks by (simp add: conj_commute)
    also have "\<dots> = filter (is_valid_chunk (config self)) ?imports"
      using none by (simp add: extract_imports_filter_conj)
    finally show ?thesis by simp
  qed
  from eq len flat whole show ?thesis by blast
qed


theorem imports_only_from_root_children_witness:
  "map_of (parsers \<lparr>config = default_config\<lparr>min_chunk_size := 1\<rparr>,
                    parsers = [(''python'', \<lambda>code. nested_import_tree)]\<rparr>) ''python''
     = Some (\<lambda>code. nested_import_tree)
   \<and> [''m.py'' \<mapsto> nested_import_code] ''m.py'' = Some nested_import_code
   \<and> chunk_file \<lparr>config = default_config\<lparr>min_chunk_size := 1\<rparr>,
                  parsers = [(''python'', \<lambda>code. nested_import_tree)]\<rparr>
         [''m.py'' \<mapsto> nested_import_code] \<lparr>path_str = ''m.py'', suffix = ''.py''\<rparr>
         (Some ''python'')
       = Inr [CodeChunk ''import os'' ''import'' ''python'' ''m.py'' 0 0 None None None None,
              CodeChunk ''def f():\<newline>    import sys'' ''function'' ''python'' ''m.py'' 1 2
                (Some ''f'') None (Some [(''has_docstring'', MBool False)]) None]
   \<and> filter (\<lambda>c. chunk_type c = ''import'')
         [CodeChunk ''import os'' ''import'' ''python'' ''m.py'' 0 0 None None None None,
          CodeChunk ''def f():\<newline>    import sys'' ''function'' ''python'' ''m.py'' 1 2
            (Some ''f'') None (Some [(''has_docstring'', MBool False)]) None]
       = filter (is_valid_chunk (default_config\<lparr>min_chunk_size := 1\<rparr>))
           (extract_imports nested_import_tree (split_nl nested_import_code) ''m.py'' ''python'')
   \<and> extract_imports nested_import_tree (split_nl nested_import_code) ''m.py'' ''python''
       = [CodeChunk ''import os'' ''import'' ''python'' ''m.py'' 0 0 None None None None]"
proof -
  let ?self = "\<lparr>config = default_config\<lparr>min_chunk_size := 1\<rparr>,
                parsers = [(''python'', \<lambda>code::string. nested_import_tree)]\<rparr>"
  let ?fs = "[''m.py'' \<mapsto> nested_import_code]"
  let ?fp = "\<lparr>path_str = ''m.py'', suffix = ''.py''\<rparr>"
  let ?chunks = "[CodeChunk ''import os'' ''import'' ''python'' ''m.py'' 0 0 None None None None,
              CodeChunk ''def f():\<newline>    import sys'' ''function'' ''python'' ''m.py'' 1 2
                (Some ''f'') None (Some [(''has_docstring'', MBool False)]) None]"
  have imps: "extract_imports nested_import_tree (split_nl nested_import_code) ''m.py'' ''python''
       = [CodeChunk ''import os'' ''import'' ''python'' ''m.py'' 0 0 None None None None]"
    by (simp add: extract_imports_def nested_import_tree_def nested_import_code_def
        import_types_def get_node_content_def slice_def)
  have funs: "extract_python_chunks (default_config\<lparr>min_chunk_size := 1\<rparr>) nested_import_tree
                (split_nl nested_import_code) ''m.py''
       = Inr [CodeChunk ''def f():\<newline>    import sys'' ''function'' ''python'' ''m.py'' 1 2
                (Some ''f'') None (Some [(''has_docstring'', MBool False)]) None]"
    by (simp add: eval_defs nested_import_tree_def nested_import_code_def)
  have inc: "include_imports (default_config\<lparr>min_chunk_size := 1\<rparr>)"
    by (simp add: default_config_def)
  have valid: "filter (is_valid_chunk (default_config\<lparr>min_chunk_size := 1\<rparr>)) ?chunks = ?chunks"
    by (simp add: is_valid_chunk_def default_config_def)
  have run: "chunk_file ?self ?fs ?fp (Some ''python'') = Inr ?chunks"
    using valid by (simp add: chunk_file_def imps funs inc Let_def)
  have p: "map_of (parsers ?self) ''python'' = Some (\<lambda>code. nested_import_tree)" by simp
  have f: "?fs (path_str ?fp) = Some nested_import_code" by simp
  have f': "?fs ''m.py'' = Some nested_import_code" by simp
  note w = imports_only_from_root_children
    [where self = ?self and lang = "''python''" and parser = "\<lambda>code. nested_import_tree"
       and fs = ?fs and fp = ?fp and code = nested_import_code and chunks = ?chunks,
     THEN conjunct2, THEN conjunct2, THEN conjunct2, THEN mp, OF conjI [OF p conjI [OF f run]]]
  have e: "filter (\<lambda>c. chunk_type c = ''import'') ?chunks
        = filter (is_valid_chunk (default_config\<lparr>min_chunk_size := 1\<rparr>))
            (extract_imports nested_import_tree (split_nl nested_import_code) ''m.py'' ''python'')"
    using w inc by (simp only: chunker.select_convs py_path.select_convs if_True)
  show ?thesis
    by (intro conjI) (rule p f' run e imps)+
qed



subsection \<open>Chunk identity\<close>

lemma md5_hexdigest_length: "length (md5_hexdigest s) = 32"
  by (simp add: md5_hexdigest_def word_hex_def hex_byte_def split: prod.splits)

text \<open>
  C3 (as amended). The generated id is a function of the language, the chunk type, the
  file path, the start line and the content: two chunks that agree on these five get the
  same id, whatever their other fields. The id is the language and the chunk type, each
  followed by an underscore, and then the first 12 of the 32 hexadecimal digits of the
  MD5 of \<open>file_path:start_line:content\<close>. \<open>__post_init__\<close> stores this id in a
  chunk built without one.
\<close>

theorem chunk_id_determined:
  "(language c1 = language c2 \<and> chunk_type c1 = chunk_type c2 \<and> file_path c1 = file_path c2
      \<and> start_line c1 = start_line c2 \<and> content c1 = content c2
    \<longrightarrow> generate_id c1 = generate_id c2)
   \<and> generate_id c
     = language c @ ''_'' @ chunk_type c @ ''_''
       @ take 12 (md5_hexdigest (file_path c @ '':'' @ str_int (start_line c) @ '':'' @ content c))
   \<and> length (take 12 (md5_hexdigest (file_path c @ '':'' @ str_int (start_line c) @ '':''
                                      @ content c))) = 12
   \<and> (chunk_id c = None \<longrightarrow> chunk_id (post_init c) = Some (generate_id c))
   \<and> chunk_id (CodeChunk cont ty lang path sl el nm parent meta None)
     = Some (lang @ ''_'' @ ty @ ''_''
             @ take 12 (md5_hexdigest (path @ '':'' @ str_int sl @ '':'' @ cont)))"
  by (simp add: generate_id_def post_init_def CodeChunk_def md5_hexdigest_length Let_def)

theorem chunk_id_determined_witness:
  "language (CodeChunk ''x = 1'' ''function'' ''python'' ''a.py'' 3 3 (Some ''f'') None None None)
     = language (CodeChunk ''x = 1'' ''function'' ''python'' ''a.py'' 3 7 None (Some ''K'') None None)
   \<and> chunk_type (CodeChunk ''x = 1'' ''function'' ''python'' ''a.py'' 3 3 (Some ''f'') None None None)
     = chunk_type (CodeChunk ''x = 1'' ''function'' ''python'' ''a.py'' 3 7 None (Some ''K'') None None)
   \<and> file_path (CodeChunk ''x = 1'' ''function'' ''python'' ''a.py'' 3 3 (Some ''f'') None None None)
     = file_path (CodeChunk ''x = 1'' ''function'' ''python'' ''a.py'' 3 7 None (Some ''K'') None None)
   \<and> start_line (CodeChunk ''x = 1'' ''function'' ''python'' ''a.py'' 3 3 (Some ''f'') None None None)
     = start_line (CodeChunk ''x = 1'' ''function'' ''python'' ''a.py'' 3 7 None (Some ''K'') None None)
   \<and> content (CodeChunk ''x = 1'' ''function'' ''python'' ''a.py'' 3 3 (Some ''f'') None None None)
     = content (CodeChunk ''x = 1'' ''function'' ''python'' ''a.py'' 3 7 None (Some ''K'') None None)
   \<and> generate_id (CodeChunk ''x = 1'' ''function'' ''python'' ''a.py'' 3 3 (Some ''f'') None None None)
     = generate_id (CodeChunk ''x = 1'' ''function'' ''python'' ''a.py'' 3 7 None (Some ''K'') None None)
   \<and> chunk_id (\<lparr>content = ''x = 1'', chunk_type = ''function'', language = ''python'',
                 file_path = ''a.py'', start_line = 3, end_line = 3, name = Some ''f'',
                 parent_context = None, metadata = [], chunk_id = None\<rparr>) = None
   \<and> chunk_id (post_init \<lparr>content = ''x = 1'', chunk_type = ''function'', language = ''python'',
                 file_path = ''a.py'', start_line = 3, end_line = 3, name = Some ''f'',
                 parent_context = None, metadata = [], chunk_id = None\<rparr>)
     = Some (''python_function_'' @ take 12 (md5_hexdigest ''a.py:3:x = 1''))"
proof -
  let ?c1 = "CodeChunk ''x = 1'' ''function'' ''python'' ''a.py'' 3 3 (Some ''f'') None None None"
  let ?c2 = "CodeChunk ''x = 1'' ''function'' ''python'' ''a.py'' 3 7 None (Some ''K'') None None"
  let ?c = "\<lparr>content = ''x = 1'', chunk_type = ''function'', language = ''python'',
             file_path = ''a.py'', start_line = 3, end_line = 3, name = Some ''f'',
             parent_context = None, metadata = [], chunk_id = None\<rparr>"
  have three: "str_int 3 = ''3''"
    by code_simp
  note t = chunk_id_determined [where ?c1.0 = ?c1 and ?c2.0 = ?c2 and c = ?c]
  have same: "generate_id ?c1 = generate_id ?c2"
    using t by simp
  have none: "chunk_id ?c = None" by simp
  have "chunk_id (post_init ?c) = Some (generate_id ?c)"
    using t none by blast
  then have gen: "chunk_id (post_init ?c)
                  = Some (''python_function_'' @ take 12 (md5_hexdigest ''a.py:3:x = 1''))"
    by (simp add: generate_id_def three)
  from same none gen show ?thesis by simp
qed

text \<open>
  The method chunk and the function chunk that the extractor emits for one and the same
  node agree on the file path, the start line and the content, and their ids differ.
\<close>

theorem chunk_id_depends_on_type_counterexample:
  "file_path (CodeChunk ''    def m(self):\<newline>        return 1'' ''method'' ''python'' ''c.py'' 1 2
                (Some ''m'') (Some ''C'') (Some [(''has_docstring'', MBool False)]) None)
     = file_path (CodeChunk ''    def m(self):\<newline>        return 1'' ''function'' ''python'' ''c.py''
                1 2 (Some ''m'') None (Some [(''has_docstring'', MBool False)]) None)
   \<and> start_line (CodeChunk ''    def m(self):\<newline>        return 1'' ''method'' ''python'' ''c.py'' 1 2
                (Some ''m'') (Some ''C'') (Some [(''has_docstring'', MBool False)]) None)
     = start_line (CodeChunk ''    def m(self):\<newline>        return 1'' ''function'' ''python''
                ''c.py'' 1 2 (Some ''m'') None (Some [(''has_docstring'', MBool False)]) None)
   \<and> content (CodeChunk ''    def m(self):\<newline>        return 1'' ''method'' ''python'' ''c.py'' 1 2
                (Some ''m'') (Some ''C'') (Some [(''has_docstring'', MBool False)]) None)
     = content (CodeChunk ''    def m(self):\<newline>        return 1'' ''function'' ''python'' ''c.py''
                1 2 (Some ''m'') None (Some [(''has_docstring'', MBool False)]) None)
   \<and> chunk_id (CodeChunk ''    def m(self):\<newline>        return 1'' ''method'' ''python'' ''c.py'' 1 2
                (Some ''m'') (Some ''C'') (Some [(''has_docstring'', MBool False)]) None)
     \<noteq> chunk_id (CodeChunk ''    def m(self):\<newline>        return 1'' ''function'' ''python'' ''c.py''
                1 2 (Some ''m'') None (Some [(''has_docstring'', MBool False)]) None)"
  by (simp add: CodeChunk_def post_init_def generate_id_def Let_def)


subsection \<open>add\_chunks\<close>

lemma batches_Nil [simp]: "batches n [] = []"
  by (simp add: batches.simps)

lemma batches_step:
  "0 < n \<Longrightarrow> xs \<noteq> [] \<Longrightarrow> batches n xs = take n xs # batches n (drop n xs)"
  by (subst batches.simps) simp

lemma batches_concat: "0 < n \<Longrightarrow> concat (batches n xs) = xs"
proof (induction n xs rule: batches.induct)
  case (1 n xs)
  show ?case
  proof (cases "xs = []")
    case True
    then show ?thesis by simp
  next
    case False
    with 1 show ?thesis by (simp add: batches_step)
  qed
qed

lemma batches_sizes:
  "0 < n \<Longrightarrow> list_all (\<lambda>b. b \<noteq> [] \<and> length b \<le> n) (batches n xs)"
proof (induction n xs rule: batches.induct)
  case (1 n xs)
  show ?case
  proof (cases "xs = []")
    case True
    then show ?thesis by simp
  next
    case False
    with 1 show ?thesis by (simp add: batches_step)
  qed
qed

lemma batches_full:
  "0 < n \<Longrightarrow> list_all (\<lambda>b. length b = n) (butlast (batches n xs))"
proof (induction n xs rule: batches.induct)
  case (1 n xs)
  show ?case
  proof (cases "xs = []")
    case True
    then show ?thesis by simp
  next
    case False
    note ne = this
    show ?thesis
    proof (cases "drop n xs = []")
      case True
      with ne "1.prems" show ?thesis by (simp add: batches_step)
    next
      case False
      then have "batches n (drop n xs) \<noteq> []"
        using "1.prems" by (simp add: batches_step)
      moreover from False have "n < length xs" by simp
      ultimately show ?thesis
        using 1 ne by (simp add: batches_step min_def)
    qed
  qed
qed

lemma batches_addable:
  "0 < n \<Longrightarrow> list_all (\<lambda>c. chunk_id c \<noteq> None) cs \<Longrightarrow> distinct (map chunk_id cs) \<Longrightarrow>
   list_all addable (batches n cs)"
proof (induction n cs rule: batches.induct)
  case (1 n cs)
  show ?case
  proof (cases "cs = []")
    case True
    then show ?thesis by simp
  next
    case False
    have some: "list_all (\<lambda>c. chunk_id c \<noteq> None) (take n cs)"
      "list_all (\<lambda>c. chunk_id c \<noteq> None) (drop n cs)"
      using "1.prems"(2) by (auto simp add: list_all_iff dest: in_set_takeD in_set_dropD)
    have dist: "distinct (map chunk_id (take n cs))" "distinct (map chunk_id (drop n cs))"
      using "1.prems"(3) by (simp_all add: take_map [symmetric] drop_map [symmetric])
    have step: "batches n cs = take n cs # batches n (drop n cs)"
      by (rule batches_step [OF "1.prems"(1) False])
    have ih: "list_all addable (batches n (drop n cs))"
      using "1.IH" some(2) dist(2) False "1.prems"(1) by simp
    have "addable (take n cs)"
      using some(1) dist(1) by (simp add: addable_def)
    with ih show ?thesis
      unfolding step by simp
  qed
qed

lemma those_map_Some: "those (map Some ks) = Some ks"
  by (induction ks) simp_all

lemma ids_of_addable:
  "list_all (\<lambda>c. chunk_id c \<noteq> None) batch \<Longrightarrow>
   map chunk_id batch = map Some (map fst (entries_of batch))
   \<and> zip (map fst (entries_of batch)) (zip (map content batch) (map chunk_metadata batch))
     = entries_of batch"
  by (induction batch) (auto simp add: entries_of_def)

lemma collection_add_addable:
  assumes "addable batch"
  shows "collection_add coll (add_call_of batch)
         = (coll\<lparr>held_records := insert_new (held_records coll) (entries_of batch),
                  add_calls := add_calls coll @ [add_call_of batch]\<rparr>, Inr ())"
proof -
  from assms have some: "list_all (\<lambda>c. chunk_id c \<noteq> None) batch"
    and dist: "distinct (map chunk_id batch)"
    by (simp_all add: addable_def)
  note ids = ids_of_addable [OF some]
  from ids have "add_ids (add_call_of batch) = map Some (map fst (entries_of batch))"
    by (simp add: add_call_of_def)
  then have th: "those (add_ids (add_call_of batch)) = Some (map fst (entries_of batch))"
    by (simp only: those_map_Some)
  from ids have "map chunk_id batch = map Some (map fst (entries_of batch))" by simp
  with dist have "distinct (map Some (map fst (entries_of batch)))" by simp
  then have d: "distinct (map fst (entries_of batch))"
    by (simp only: distinct_map)
  from ids have z: "zip (map fst (entries_of batch))
                      (zip (add_documents (add_call_of batch)) (add_metadatas (add_call_of batch)))
                    = entries_of batch"
    by (simp add: add_call_of_def)
  show ?thesis
    by (simp add: collection_add_def th d z)
qed

lemma collection_add_calls:
  "add_calls (fst (collection_add coll call)) = add_calls coll @ [call]"
  by (simp add: collection_add_def split: option.splits)

lemma insert_new_append: "insert_new (insert_new hs es) fs = insert_new hs (es @ fs)"
  by (induction hs es rule: insert_new.induct) simp_all

lemma entries_of_append: "entries_of (xs @ ys) = entries_of xs @ entries_of ys"
  by (simp add: entries_of_def)

lemma map_of_insert_new:
  "map_of (insert_new hs es) i
   = (case map_of hs i of Some r \<Rightarrow> Some r | None \<Rightarrow> map_of es i)"
proof (induction hs es rule: insert_new.induct)
  case (1 hs)
  show ?case by (simp split: option.splits)
next
  case (2 hs j d m rest)
  show ?case
  proof (cases "j \<in> set (map fst hs)")
    case True
    then have "map_of hs j \<noteq> None" by (simp add: map_of_eq_None_iff)
    with 2 True show ?thesis by (auto split: option.splits)
  next
    case False
    then have "map_of hs j = None" by (simp add: map_of_eq_None_iff)
    with 2 False show ?thesis by (auto simp add: map_add_def split: option.splits)
  qed
qed

lemma add_chunks_loop_step:
  assumes "0 < n" "i < length chunks"
  shows "add_chunks_loop chunks n i coll tot
         = (case collection_add coll (add_call_of (take n (drop i chunks))) of
              (coll', Inl e) \<Rightarrow> (coll', Inl e)
            | (coll', Inr u) \<Rightarrow>
                add_chunks_loop chunks n (i + n) coll'
                  (tot + int (length (take n (drop i chunks)))))"
  using assms
  by (subst add_chunks_loop.simps) (simp add: Let_def slice_def add_call_of_def)

lemma add_chunks_loop_done:
  "length chunks \<le> i \<Longrightarrow> add_chunks_loop chunks n i coll tot = (coll, Inr tot)"
  by (subst add_chunks_loop.simps) simp

lemma add_chunks_loop_batches:
  assumes "0 < n"
  shows "list_all addable (batches n (drop i chunks)) \<Longrightarrow>
   add_chunks_loop chunks n i coll tot
   = (coll\<lparr>held_records := insert_new (held_records coll) (entries_of (drop i chunks)),
            add_calls := add_calls coll @ map add_call_of (batches n (drop i chunks))\<rparr>,
      Inr (tot + int (length (drop i chunks))))"
proof (induction "length chunks - i" arbitrary: i coll tot rule: less_induct)
  case less
  show ?case
  proof (cases "length chunks \<le> i")
    case True
    then show ?thesis by (simp add: add_chunks_loop_done entries_of_def)
  next
    case False
    then have lt: "i < length chunks" and ne: "drop i chunks \<noteq> []" by simp_all
    let ?b = "take n (drop i chunks)"
    have bs: "batches n (drop i chunks) = ?b # batches n (drop (i + n) chunks)"
      using batches_step [OF assms ne] by (simp add: add.commute)
    from less.prems bs have ok: "addable ?b"
      and rest: "list_all addable (batches n (drop (i + n) chunks))"
      by simp_all
    have smaller: "length chunks - (i + n) < length chunks - i"
      using lt assms by simp
    have dd: "drop (i + n) chunks = drop n (drop i chunks)"
      by (simp add: add.commute)
    have parts: "drop i chunks = ?b @ drop (i + n) chunks"
      unfolding dd by (rule append_take_drop_id [symmetric])
    from arg_cong [OF parts, of length]
    have "length (drop i chunks) = length ?b + length (drop (i + n) chunks)"
      by (simp only: length_append)
    then have len: "int (length ?b) + int (length (drop (i + n) chunks))
               = int (length (drop i chunks))"
      by (simp only: of_nat_add)
    from arg_cong [OF parts, of entries_of]
    have ent: "entries_of (drop i chunks) = entries_of ?b @ entries_of (drop (i + n) chunks)"
      by (simp only: entries_of_append)
    show ?thesis
      unfolding add_chunks_loop_step [OF assms lt] collection_add_addable [OF ok]
      using less.hyps [OF smaller rest] len
      by (simp add: bs ent insert_new_append del: length_take length_drop)
  qed
qed

lemma add_chunks_loop_calls:
  assumes "0 < n"
  shows "\<exists>k. add_calls (fst (add_chunks_loop chunks n i coll tot))
             = add_calls coll @ take k (map add_call_of (batches n (drop i chunks)))"
proof (induction "length chunks - i" arbitrary: i coll tot rule: less_induct)
  case less
  show ?case
  proof (cases "length chunks \<le> i")
    case True
    then show ?thesis by (simp add: add_chunks_loop_done)
  next
    case False
    then have lt: "i < length chunks" and ne: "drop i chunks \<noteq> []" by simp_all
    let ?b = "take n (drop i chunks)"
    have bs: "batches n (drop i chunks) = ?b # batches n (drop (i + n) chunks)"
      using batches_step [OF assms ne] by (simp add: add.commute)
    have smaller: "length chunks - (i + n) < length chunks - i"
      using lt assms by simp
    obtain coll' r where add: "collection_add coll (add_call_of ?b) = (coll', r)"
      by (cases "collection_add coll (add_call_of ?b)") auto
    from collection_add_calls [of coll "add_call_of ?b"] add
    have calls: "add_calls coll' = add_calls coll @ [add_call_of ?b]" by simp
    show ?thesis
    proof (cases r)
      case (Inl e)
      have "add_calls coll @ [add_call_of ?b]
            = add_calls coll @ take 1 (map add_call_of (batches n (drop i chunks)))"
        by (simp add: bs)
      with Inl add calls show ?thesis
        unfolding add_chunks_loop_step [OF assms lt] by (auto simp del: take_Suc_Cons)
    next
      case (Inr u)
      from less.hyps [OF smaller, of coll' "tot + int (length ?b)"]
      obtain k where k: "add_calls (fst (add_chunks_loop chunks n (i + n) coll'
                                            (tot + int (length ?b))))
                         = add_calls coll' @ take k (map add_call_of
                                                      (batches n (drop (i + n) chunks)))"
        by blast
      have "add_calls coll' @ take k (map add_call_of (batches n (drop (i + n) chunks)))
            = add_calls coll @ take (Suc k) (map add_call_of (batches n (drop i chunks)))"
        by (simp add: calls bs)
      with Inr add k show ?thesis
        unfolding add_chunks_loop_step [OF assms lt] by (auto simp del: take_Suc_Cons)
    qed
  qed
qed

lemma add_chunks_positive:
  assumes "0 < batch_size" and "list_all addable (batches (nat batch_size) chunks)"
  shows "add_chunks coll chunks batch_size
         = (coll\<lparr>held_records := insert_new (held_records coll) (entries_of chunks),
                  add_calls := add_calls coll
                                 @ map add_call_of (batches (nat batch_size) chunks)\<rparr>,
            Inr (int (length chunks)))"
proof (cases "chunks = []")
  case True
  then show ?thesis by (simp add: add_chunks_def entries_of_def)
next
  case False
  from assms(1) have n: "0 < nat batch_size" by simp
  from assms(2) have "list_all addable (batches (nat batch_size) (drop 0 chunks))" by simp
  from add_chunks_loop_batches [OF n this, of coll 0] False assms(1) show ?thesis
    by (simp add: add_chunks_def)
qed

text \<open>
  C6 (as amended). For a positive \<open>batch_size\<close> and a list of chunks in which, within
  each consecutive batch, every chunk has an id and no id occurs twice, \<open>add_chunks\<close>
  makes one \<open>collection.add\<close> call per batch, in order, where the batches are
  consecutive pieces of the input: put together they are the input list, every batch but
  the last has exactly \<open>batch_size\<close> chunks, and none is empty or longer. It returns
  the length of the input list. The collection then holds, for an id it held before, the
  record it held before (nothing is overwritten), and for a new id the record of the
  first chunk with that id. For the empty list it returns 0 and leaves the collection as
  it was, whatever the batch size.
\<close>

theorem add_chunks_batches:
  assumes "0 < batch_size"
    and "list_all addable (batches (nat batch_size) chunks)"
  shows "add_chunks coll chunks batch_size
           = (coll\<lparr>held_records := insert_new (held_records coll) (entries_of chunks),
                    add_calls := add_calls coll
                                   @ map add_call_of (batches (nat batch_size) chunks)\<rparr>,
              Inr (int (length chunks)))
         \<and> concat (batches (nat batch_size) chunks) = chunks
         \<and> list_all (\<lambda>b. length b = nat batch_size) (butlast (batches (nat batch_size) chunks))
         \<and> list_all (\<lambda>b. b \<noteq> [] \<and> length b \<le> nat batch_size)
               (batches (nat batch_size) chunks)
         \<and> map_of (insert_new (held_records coll) (entries_of chunks)) i
             = (case map_of (held_records coll) i of
                  Some r \<Rightarrow> Some r
                | None \<Rightarrow> map_of (entries_of chunks) i)
         \<and> add_chunks coll [] batch_size = (coll, Inr 0)"
proof -
  from assms(1) have n: "0 < nat batch_size" by simp
  have empty: "add_chunks coll [] batch_size = (coll, Inr 0)"
    by (simp add: add_chunks_def)
  from add_chunks_positive [OF assms] batches_concat [OF n] batches_full [OF n]
    batches_sizes [OF n] map_of_insert_new empty
  show ?thesis by blast
qed

theorem add_chunks_batches_witness:
  "0 < (2::int)
   \<and> list_all addable
        (batches (nat 2)
           [example_chunk ''a'' ''A'', example_chunk ''b'' ''B'', example_chunk ''c'' ''C'',
            example_chunk ''d'' ''D'', example_chunk ''e'' ''E''])
   \<and> add_chunks empty_collection
        [example_chunk ''a'' ''A'', example_chunk ''b'' ''B'', example_chunk ''c'' ''C'',
         example_chunk ''d'' ''D'', example_chunk ''e'' ''E''] 2
     = (\<lparr>held_records =
            [(''a'', ''A'', chunk_metadata (example_chunk ''a'' ''A'')),
             (''b'', ''B'', chunk_metadata (example_chunk ''b'' ''B'')),
             (''c'', ''C'', chunk_metadata (example_chunk ''c'' ''C'')),
             (''d'', ''D'', chunk_metadata (example_chunk ''d'' ''D'')),
             (''e'', ''E'', chunk_metadata (example_chunk ''e'' ''E''))],
          add_calls =
            [add_call_of [example_chunk ''a'' ''A'', example_chunk ''b'' ''B''],
             add_call_of [example_chunk ''c'' ''C'', example_chunk ''d'' ''D''],
             add_call_of [example_chunk ''e'' ''E'']]\<rparr>, Inr 5)
   \<and> add_chunks empty_collection [] 2 = (empty_collection, Inr 0)"
proof -
  let ?cs = "[example_chunk ''a'' ''A'', example_chunk ''b'' ''B'', example_chunk ''c'' ''C'',
         example_chunk ''d'' ''D'', example_chunk ''e'' ''E'']"
  have two: "0 < (2::int)" by simp
  have ids: "chunk_id (example_chunk i t) = Some i" "content (example_chunk i t) = t" for i t
    by (simp_all add: example_chunk_def CodeChunk_def post_init_def)
  have b: "batches (nat 2) ?cs
           = [[example_chunk ''a'' ''A'', example_chunk ''b'' ''B''],
              [example_chunk ''c'' ''C'', example_chunk ''d'' ''D''], [example_chunk ''e'' ''E'']]"
    by (simp add: batches_step)
  have ok: "list_all addable (batches (nat 2) ?cs)"
    unfolding b by (simp add: addable_def ids)
  have ent: "insert_new (held_records empty_collection) (entries_of ?cs)
             = [(''a'', ''A'', chunk_metadata (example_chunk ''a'' ''A'')),
                (''b'', ''B'', chunk_metadata (example_chunk ''b'' ''B'')),
                (''c'', ''C'', chunk_metadata (example_chunk ''c'' ''C'')),
                (''d'', ''D'', chunk_metadata (example_chunk ''d'' ''D'')),
                (''e'', ''E'', chunk_metadata (example_chunk ''e'' ''E''))]"
    by (simp add: entries_of_def ids empty_collection_def)
  note t = add_chunks_batches [OF two ok, of empty_collection]
  from t have "add_chunks empty_collection ?cs 2
     = (empty_collection
          \<lparr>held_records := insert_new (held_records empty_collection) (entries_of ?cs),
           add_calls := add_calls empty_collection @ map add_call_of (batches (nat 2) ?cs)\<rparr>,
        Inr (int (length ?cs)))"
    by blast
  then have run: "add_chunks empty_collection ?cs 2
     = (\<lparr>held_records =
            [(''a'', ''A'', chunk_metadata (example_chunk ''a'' ''A'')),
             (''b'', ''B'', chunk_metadata (example_chunk ''b'' ''B'')),
             (''c'', ''C'', chunk_metadata (example_chunk ''c'' ''C'')),
             (''d'', ''D'', chunk_metadata (example_chunk ''d'' ''D'')),
             (''e'', ''E'', chunk_metadata (example_chunk ''e'' ''E''))],
          add_calls =
            [add_call_of [example_chunk ''a'' ''A'', example_chunk ''b'' ''B''],
             add_call_of [example_chunk ''c'' ''C'', example_chunk ''d'' ''D''],
             add_call_of [example_chunk ''e'' ''E'']]\<rparr>, Inr 5)"
    unfolding ent b by (simp add: empty_collection_def)
  from t have none: "add_chunks empty_collection [] 2 = (empty_collection, Inr 0)"
    by blast
  show ?thesis
    by (intro conjI) (rule two ok run none)+
qed

text \<open>
  A collection that holds the id \<open>X\<close> with the document \<open>old text\<close> still holds
  \<open>old text\<close> after \<open>add_chunks\<close> of a chunk with the id \<open>X\<close> and the content
  \<open>new text\<close>, while 1 is returned: the batch was added, not upserted. And a list of two
  chunks with the same id does not return 2: the one \<open>collection.add\<close> call raises
  DuplicateIDError.
\<close>

theorem add_chunks_not_upsert_counterexample:
  "chunk_id (example_chunk ''X'' ''new text'') = Some ''X''
   \<and> content (example_chunk ''X'' ''new text'') = ''new text''
   \<and> add_chunks \<lparr>held_records = [(''X'', ''old text'', [])], add_calls = []\<rparr>
        [example_chunk ''X'' ''new text''] 100
     = (\<lparr>held_records = [(''X'', ''old text'', [])],
          add_calls = [add_call_of [example_chunk ''X'' ''new text'']]\<rparr>, Inr 1)
   \<and> add_chunks empty_collection [example_chunk ''X'' ''a'', example_chunk ''X'' ''b''] 100
     = (\<lparr>held_records = [],
          add_calls = [add_call_of [example_chunk ''X'' ''a'', example_chunk ''X'' ''b'']]\<rparr>,
        Inl DuplicateIDError)"
proof -
  have ids: "chunk_id (example_chunk i t) = Some i" "content (example_chunk i t) = t" for i t
    by (simp_all add: example_chunk_def CodeChunk_def post_init_def)
  have one: "add_chunks \<lparr>held_records = [(''X'', ''old text'', [])], add_calls = []\<rparr>
        [example_chunk ''X'' ''new text''] 100
     = (\<lparr>held_records = [(''X'', ''old text'', [])],
          add_calls = [add_call_of [example_chunk ''X'' ''new text'']]\<rparr>, Inr 1)"
    by (simp add: add_chunks_def add_chunks_loop_step add_chunks_loop_done collection_add_def
        add_call_of_def ids)
  have two: "add_chunks empty_collection [example_chunk ''X'' ''a'', example_chunk ''X'' ''b''] 100
     = (\<lparr>held_records = [],
          add_calls = [add_call_of [example_chunk ''X'' ''a'', example_chunk ''X'' ''b'']]\<rparr>,
        Inl DuplicateIDError)"
    by (simp add: add_chunks_def add_chunks_loop_step collection_add_def add_call_of_def ids
        empty_collection_def)
  show ?thesis
    by (intro conjI) (rule ids one two)+
qed

subsection \<open>search\<close>

lemma search_loop_filter:
  fixes threshold :: "'f::{one, minus, ord}"
  assumes "well_formed results"
  shows "drop i (ids results) = rest \<Longrightarrow>
   search_loop threshold results rest i acc
   = Inr (acc @ filter (\<lambda>r. res_similarity r \<ge> threshold)
                  (map (\<lambda>i. \<lparr>res_chunk_id = ids results ! i,
                              res_content = documents results ! i,
                              res_metadata = metadatas results ! i,
                              res_similarity = 1 - distances results ! i,
                              res_rank = int i + 1\<rparr>)
                     [i ..< length (ids results)]))"
proof (induction rest arbitrary: i acc)
  case Nil
  then have "length (ids results) \<le> i" by simp
  then show ?case by simp
next
  case (Cons cid rest)
  from Cons.prems have lt: "i < length (ids results)"
    by (cases "i < length (ids results)") auto
  from Cons.prems lt have cid: "ids results ! i = cid"
    by (metis nth_via_drop)
  from Cons.prems have rest: "drop (Suc i) (ids results) = rest"
    by (metis drop_Suc tl_drop list.sel(3))
  have upt: "[i ..< length (ids results)] = i # [Suc i ..< length (ids results)]"
    using lt by (simp add: upt_conv_Cons)
  from assms lt have idx:
    "py_index (distances results) i = Inr (distances results ! i)"
    "py_index (documents results) i = Inr (documents results ! i)"
    "py_index (metadatas results) i = Inr (metadatas results ! i)"
    by (simp_all add: py_index_def well_formed_def)
  show ?case
    by (simp add: idx Let_def upt cid Cons.IH [OF rest])
qed

lemma candidates_ranks: "map res_rank (candidates results) = map (\<lambda>i. int i + 1) [0 ..< length (ids results)]"
  by (simp add: candidates_def o_def)

lemma sorted_ranks_filter:
  "sorted_wrt (<) (map res_rank xs) \<Longrightarrow> sorted_wrt (<) (map res_rank (filter P xs))"
  by (simp add: sorted_wrt_map sorted_wrt_filter)

lemma search_spec_ranks_increase:
  "sorted_wrt (<) (map res_rank (search_spec threshold k results))"
proof -
  have "sorted_wrt (\<lambda>a b. int a + 1 < int b + 1) [0 ..< length (ids results)]"
    by (rule sorted_wrt_mono_rel [OF _ sorted_wrt_upt]) simp
  then have "sorted_wrt (<) (map (\<lambda>i. int i + 1) [0 ..< length (ids results)])"
    by (simp only: sorted_wrt_map)
  then have "sorted_wrt (<) (map res_rank (candidates results))"
    by (simp add: candidates_ranks)
  then have "sorted_wrt (<) (map res_rank
               (filter (\<lambda>r. res_similarity r \<ge> threshold) (candidates results)))"
    by (rule sorted_ranks_filter)
  then show ?thesis
    by (simp add: search_spec_def sorted_wrt_map sorted_wrt_take)
qed

lemma search_spec_members:
  "list_all (\<lambda>r. res_similarity r \<ge> threshold
               \<and> 1 \<le> res_rank r \<and> res_rank r \<le> int (length (ids results))
               \<and> res_chunk_id r = ids results ! nat (res_rank r - 1)
               \<and> res_content r = documents results ! nat (res_rank r - 1)
               \<and> res_metadata r = metadatas results ! nat (res_rank r - 1)
               \<and> res_similarity r = 1 - distances results ! nat (res_rank r - 1))
     (search_spec threshold k results)"
proof -
  have "res_similarity r \<ge> threshold
               \<and> 1 \<le> res_rank r \<and> res_rank r \<le> int (length (ids results))
               \<and> res_chunk_id r = ids results ! nat (res_rank r - 1)
               \<and> res_content r = documents results ! nat (res_rank r - 1)
               \<and> res_metadata r = metadatas results ! nat (res_rank r - 1)
               \<and> res_similarity r = 1 - distances results ! nat (res_rank r - 1)"
    if "r \<in> set (search_spec threshold k results)" for r
  proof -
    from that have mem: "r \<in> set (candidates results)" and ok: "res_similarity r \<ge> threshold"
      unfolding search_spec_def by (auto dest: in_set_takeD)
    from mem obtain i where i: "i < length (ids results)"
      and r: "r = \<lparr>res_chunk_id = ids results ! i, res_content = documents results ! i,
                   res_metadata = metadatas results ! i,
                   res_similarity = 1 - distances results ! i, res_rank = int i + 1\<rparr>"
      by (auto simp add: candidates_def)
    have "nat (res_rank r - 1) = i" by (simp add: r)
    with ok i show ?thesis by (simp add: r)
  qed
  then show ?thesis
    unfolding list_all_iff by blast
qed


lemma search_loop_all:
  fixes threshold :: "'f::{one, minus, ord}"
  assumes "well_formed results"
  shows "(if ids results \<noteq> [] then search_loop threshold results (ids results) 0 []
          else Inr [])
         = Inr (filter (\<lambda>r. res_similarity r \<ge> threshold) (candidates results))"
proof (cases "ids results = []")
  case True
  then show ?thesis by (simp add: candidates_def)
next
  case False
  have "drop 0 (ids results) = ids results" by simp
  from search_loop_filter [OF assms this, of threshold "[]"] False show ?thesis
    by (simp add: candidates_def)
qed

text \<open>
  C4. For a well-formed answer of the store and a \<open>top_k\<close> that is not negative,
  \<open>search\<close> returns what the specification's steps give: the candidates with their
  similarity \<open>1 - distance\<close> and their 1-based position in the store's list, those at or
  above the threshold kept in the store's order, cut to the first \<open>top_k\<close>. In the
  returned list the ranks increase strictly (the store's order is kept, nothing is
  re-sorted), every entry is the store's entry at its rank and passes the threshold, and
  there are at most \<open>top_k\<close> entries.
\<close>

theorem search_keeps_store_order:
  fixes cfg :: "'f::{one, minus, ord} chroma_config"
  assumes "k = (case top_k_arg of None \<Rightarrow> top_k cfg | Some n \<Rightarrow> n)"
    and "threshold = (case threshold_arg of None \<Rightarrow> similarity_threshold cfg | Some t \<Rightarrow> t)"
    and "results = collection_query query (k * 2) filter_dict"
    and "well_formed results"
    and "0 \<le> k"
  shows "search cfg collection_query query top_k_arg filter_dict threshold_arg
           = Inr (search_spec threshold (nat k) results)
         \<and> sorted_wrt (<) (map res_rank (search_spec threshold (nat k) results))
         \<and> list_all (\<lambda>r. res_similarity r \<ge> threshold
                       \<and> 1 \<le> res_rank r \<and> res_rank r \<le> int (length (ids results))
                       \<and> res_chunk_id r = ids results ! nat (res_rank r - 1)
                       \<and> res_content r = documents results ! nat (res_rank r - 1)
                       \<and> res_metadata r = metadatas results ! nat (res_rank r - 1)
                       \<and> res_similarity r = 1 - distances results ! nat (res_rank r - 1))
             (search_spec threshold (nat k) results)
         \<and> length (search_spec threshold (nat k) results) \<le> nat k"
proof -
  have loop: "(if ids results \<noteq> [] then search_loop threshold results (ids results) 0 []
               else Inr [])
              = Inr (filter (\<lambda>r. res_similarity r \<ge> threshold) (candidates results))"
    by (rule search_loop_all [OF assms(4)])
  have run: "search cfg collection_query query top_k_arg filter_dict threshold_arg
             = Inr (search_spec threshold (nat k) results)"
    unfolding search_def Let_def assms(1-3) [symmetric] loop
    using assms(5) by (simp add: slice_to_def search_spec_def)
  have len: "length (search_spec threshold (nat k) results) \<le> nat k"
    by (simp add: search_spec_def)
  from run search_spec_ranks_increase [of threshold "nat k" results]
    search_spec_members [of threshold results "nat k"] len
  show ?thesis by blast
qed


theorem search_keeps_store_order_witness:
  "(2::int) = (case Some 2 of None \<Rightarrow> top_k default_chroma_config | Some n \<Rightarrow> n)
   \<and> (0.1::real) = (case None of None \<Rightarrow> similarity_threshold default_chroma_config
                                | Some t \<Rightarrow> t)
   \<and> abc_results = (\<lambda>q n f. abc_results) ''baz method'' (2 * 2) None
   \<and> well_formed abc_results
   \<and> 0 \<le> (2::int)
   \<and> search default_chroma_config (\<lambda>q n f. abc_results) ''baz method'' (Some 2) None None
     = Inr [\<lparr>res_chunk_id = ''A'', res_content = ''doc A'', res_metadata = [],
              res_similarity = 0.9, res_rank = 1\<rparr>,
            \<lparr>res_chunk_id = ''C'', res_content = ''doc C'', res_metadata = [],
              res_similarity = 0.6, res_rank = 3\<rparr>]"
proof -
  have k: "(2::int) = (case Some 2 of None \<Rightarrow> top_k default_chroma_config | Some n \<Rightarrow> n)"
    by simp
  have t: "(0.1::real) = (case None of None \<Rightarrow> similarity_threshold default_chroma_config
                                      | Some t \<Rightarrow> t)"
    by (simp add: default_chroma_config_def)
  have r: "abc_results = (\<lambda>q n f. abc_results) ''baz method'' (2 * 2) None"
    by simp
  have wf: "well_formed abc_results"
    by (simp add: well_formed_def abc_results_def)
  have nonneg: "0 \<le> (2::int)" by simp
  have upt: "[0 ..< 3] = [0, 1, 2]" by (simp add: upt_rec)
  have spec: "search_spec (0.1::real) (nat 2) abc_results
     = [\<lparr>res_chunk_id = ''A'', res_content = ''doc A'', res_metadata = [],
              res_similarity = 0.9, res_rank = 1\<rparr>,
            \<lparr>res_chunk_id = ''C'', res_content = ''doc C'', res_metadata = [],
              res_similarity = 0.6, res_rank = 3\<rparr>]"
    by (simp add: search_spec_def candidates_def abc_results_def upt)
  from search_keeps_store_order
    [where cfg = default_chroma_config and top_k_arg = "Some 2" and threshold_arg = None
       and collection_query = "\<lambda>q n f. abc_results" and query = "''baz method''"
       and filter_dict = None and k = 2 and threshold = "0.1" and results = abc_results,
     OF k t r wf nonneg]
  have "search default_chroma_config (\<lambda>q n f. abc_results) ''baz method'' (Some 2) None None
        = Inr (search_spec (0.1::real) (nat 2) abc_results)"
    by blast
  with spec have run:
    "search default_chroma_config (\<lambda>q n f. abc_results) ''baz method'' (Some 2) None None
     = Inr [\<lparr>res_chunk_id = ''A'', res_content = ''doc A'', res_metadata = [],
              res_similarity = 0.9, res_rank = 1\<rparr>,
            \<lparr>res_chunk_id = ''C'', res_content = ''doc C'', res_metadata = [],
              res_similarity = 0.6, res_rank = 3\<rparr>]"
    by simp
  show ?thesis
    by (intro conjI) (rule k t r wf nonneg run)+
qed

text \<open>
  C7. When the store returns no ids (an empty store, or a metadata filter that excludes
  every chunk), \<open>search\<close> returns the empty list and not an error; and so it does when
  the store's answer is well formed and no candidate reaches the threshold.
\<close>

theorem search_without_results:
  fixes cfg :: "'f::{one, minus, ord} chroma_config"
  assumes "k = (case top_k_arg of None \<Rightarrow> top_k cfg | Some n \<Rightarrow> n)"
    and "threshold = (case threshold_arg of None \<Rightarrow> similarity_threshold cfg | Some t \<Rightarrow> t)"
    and "results = collection_query query (k * 2) filter_dict"
  shows "(ids results = [] \<longrightarrow>
            search cfg collection_query query top_k_arg filter_dict threshold_arg = Inr [])
         \<and> (well_formed results \<and> list_all (\<lambda>d. \<not> 1 - d \<ge> threshold) (distances results) \<longrightarrow>
            search cfg collection_query query top_k_arg filter_dict threshold_arg = Inr [])"
proof -
  have empty: "search cfg collection_query query top_k_arg filter_dict threshold_arg = Inr []"
    if "ids results = []"
    unfolding search_def Let_def assms(1-3) [symmetric]
    using that by (simp add: slice_to_def)
  have none: "search cfg collection_query query top_k_arg filter_dict threshold_arg = Inr []"
    if wf: "well_formed results"
      and far: "list_all (\<lambda>d. \<not> 1 - d \<ge> threshold) (distances results)"
  proof -
    have loop: "(if ids results \<noteq> [] then search_loop threshold results (ids results) 0 []
                 else Inr [])
                = Inr (filter (\<lambda>r. res_similarity r \<ge> threshold) (candidates results))"
      by (rule search_loop_all [OF wf])
    have "\<not> res_similarity r \<ge> threshold" if "r \<in> set (candidates results)" for r
    proof -
      from that obtain i where i: "i < length (ids results)"
        and r: "res_similarity r = 1 - distances results ! i"
        by (auto simp add: candidates_def)
      from i wf have "distances results ! i \<in> set (distances results)"
        by (simp add: well_formed_def)
      with far show ?thesis by (simp add: list_all_iff r)
    qed
    then have "filter (\<lambda>r. res_similarity r \<ge> threshold) (candidates results) = []"
      by (simp add: filter_empty_conv)
    then show ?thesis
      unfolding search_def Let_def assms(1-3) [symmetric] loop
      by (simp add: slice_to_def)
  qed
  from empty none show ?thesis by blast
qed

theorem search_without_results_witness:
  "(8::int) = (case None of None \<Rightarrow> top_k default_chroma_config | Some n \<Rightarrow> n)
   \<and> (0.1::real) = (case None of None \<Rightarrow> similarity_threshold default_chroma_config
                                | Some t \<Rightarrow> t)
   \<and> ids no_results = []
   \<and> search default_chroma_config (\<lambda>q n f. no_results) ''baz method'' None
        (Some [(''language'', MStr ''cobol'')]) None = Inr []
   \<and> well_formed far_results
   \<and> list_all (\<lambda>d. \<not> 1 - d \<ge> (0.1::real)) (distances far_results)
   \<and> search default_chroma_config (\<lambda>q n f. far_results) ''baz method'' None None None = Inr []"
proof -
  have k: "(8::int) = (case None of None \<Rightarrow> top_k default_chroma_config | Some n \<Rightarrow> n)"
    by (simp add: default_chroma_config_def)
  have t: "(0.1::real) = (case None of None \<Rightarrow> similarity_threshold default_chroma_config
                                      | Some t \<Rightarrow> t)"
    by (simp add: default_chroma_config_def)
  have r1: "no_results = (\<lambda>q n f. no_results) ''baz method'' (8 * 2)
              (Some [(''language'', MStr ''cobol'')])"
    by simp
  have r2: "far_results = (\<lambda>q n f. far_results) ''baz method'' (8 * 2) None"
    by simp
  have e: "ids no_results = []" by (simp add: no_results_def)
  have wf: "well_formed far_results" by (simp add: well_formed_def far_results_def)
  have far: "list_all (\<lambda>d. \<not> 1 - d \<ge> (0.1::real)) (distances far_results)"
    by (simp add: far_results_def)
  from search_without_results
    [where cfg = default_chroma_config and top_k_arg = None and threshold_arg = None
       and collection_query = "\<lambda>q n f. no_results" and query = "''baz method''"
       and filter_dict = "Some [(''language'', MStr ''cobol'')]" and k = 8
       and threshold = "0.1" and results = no_results, OF k t r1] e
  have run1: "search default_chroma_config (\<lambda>q n f. no_results) ''baz method'' None
        (Some [(''language'', MStr ''cobol'')]) None = Inr []"
    by blast
  from search_without_results
    [where cfg = default_chroma_config and top_k_arg = None and threshold_arg = None
       and collection_query = "\<lambda>q n f. far_results" and query = "''baz method''"
       and filter_dict = None and k = 8
       and threshold = "0.1" and results = far_results, OF k t r2] wf far
  have run2: "search default_chroma_config (\<lambda>q n f. far_results) ''baz method'' None None None
              = Inr []"
    by blast
  show ?thesis
    by (intro conjI) (rule k t e run1 wf far run2)+
qed


subsection \<open>import\_chunks\<close>

lemma import_chunk_id:
  "import_chunk r = Inr c \<Longrightarrow> chunk_id c = Some (rec_id r) \<and> content c = rec_content r"
  by (auto simp add: import_chunk_def Let_def CodeChunk_def post_init_def split: sum.splits)

lemma import_chunks_loop_ids:
  "import_chunks_loop rs acc = Inr cs \<Longrightarrow>
   map chunk_id cs = map chunk_id acc @ map (\<lambda>r. Some (rec_id r)) rs"
proof (induction rs arbitrary: acc)
  case Nil
  then show ?case by simp
next
  case (Cons r rs)
  from Cons.prems obtain c where c: "import_chunk r = Inr c"
    and rest: "import_chunks_loop rs (acc @ [c]) = Inr cs"
    by (auto split: sum.splits)
  from Cons.IH [OF rest] import_chunk_id [OF c] show ?case by simp
qed

lemma add_ids_batches:
  "concat (map add_ids (map add_call_of bs)) = map chunk_id (concat bs)"
  by (induction bs) (simp_all add: add_call_of_def)

lemma add_chunks_calls:
  assumes "0 < batch_size"
  shows "\<exists>k. add_calls (fst (add_chunks coll chunks batch_size))
             = add_calls coll @ take k (map add_call_of (batches (nat batch_size) chunks))"
proof (cases "chunks = []")
  case True
  then show ?thesis by (simp add: add_chunks_def)
next
  case False
  from assms have n: "0 < nat batch_size" by simp
  from add_chunks_loop_calls [OF n, of chunks 0 coll 0] False assms show ?thesis
    by (simp add: add_chunks_def)
qed

text \<open>
  C9. A record with the metadata keys that \<open>add_chunks\<close> writes is rebuilt as a chunk
  whose id is the stored id and whose content is the stored document. Whenever a record
  is rebuilt, the chunk carries the record's id: \<open>__post_init__\<close> generates an id only
  for a chunk without one. The rebuilt chunks go through \<open>add_chunks\<close> with its default
  batch size of 100: the outcome of the import is the outcome of that call, every call it
  makes on the collection is the call for one of the consecutive batches, in order, and
  the ids in those batches are the stored ids, in order. For records with pairwise
  different ids, as an export holds them, all batches are handed over and the import
  returns.
\<close>

theorem import_keeps_stored_id:
  "import_chunk
     \<lparr>rec_id = i, rec_content = d,
      rec_metadata =
        [(''chunk_type'', MStr ty), (''language'', MStr lang), (''file_path'', MStr p),
         (''start_line'', MInt sl), (''end_line'', MInt el), (''name'', MStr nm),
         (''parent_context'', MStr par)] @ extra\<rparr>
     = Inr (CodeChunk d ty lang p sl el (Some nm) (Some par) None (Some i))
   \<and> chunk_id (CodeChunk d ty lang p sl el (Some nm) (Some par) None (Some i)) = Some i
   \<and> (import_chunk r = Inr c \<longrightarrow> chunk_id c = Some (rec_id r) \<and> content c = rec_content r)
   \<and> (import_chunks_loop records [] = Inr chunks \<longrightarrow>
        map chunk_id chunks = map (\<lambda>r. Some (rec_id r)) records
        \<and> import_chunks coll records
          = (case add_chunks coll chunks 100 of
               (coll', Inl e) \<Rightarrow> (coll', Inl e)
             | (coll', Inr n) \<Rightarrow> (coll', Inr ()))
        \<and> (\<exists>k. add_calls (fst (import_chunks coll records))
                 = add_calls coll @ take k (map add_call_of (batches 100 chunks)))
        \<and> concat (map add_ids (map add_call_of (batches 100 chunks)))
          = map (\<lambda>r. Some (rec_id r)) records
        \<and> (distinct (map rec_id records) \<longrightarrow>
             add_chunks coll chunks 100
               = (coll\<lparr>held_records := insert_new (held_records coll) (entries_of chunks),
                        add_calls := add_calls coll @ map add_call_of (batches 100 chunks)\<rparr>,
                  Inr (int (length chunks)))
             \<and> import_chunks coll records
               = (coll\<lparr>held_records := insert_new (held_records coll) (entries_of chunks),
                        add_calls := add_calls coll @ map add_call_of (batches 100 chunks)\<rparr>,
                  Inr ())))"
proof -
  have std: "import_chunk
     \<lparr>rec_id = i, rec_content = d,
      rec_metadata =
        [(''chunk_type'', MStr ty), (''language'', MStr lang), (''file_path'', MStr p),
         (''start_line'', MInt sl), (''end_line'', MInt el), (''name'', MStr nm),
         (''parent_context'', MStr par)] @ extra\<rparr>
     = Inr (CodeChunk d ty lang p sl el (Some nm) (Some par) None (Some i))"
    by (simp add: import_chunk_def str_item_def int_item_def str_get_def dict_item_def
        dict_get_def)
  have kept: "chunk_id (CodeChunk d ty lang p sl el (Some nm) (Some par) None (Some i)) = Some i"
    by (simp add: CodeChunk_def post_init_def)
  have one: "chunk_id c = Some (rec_id r) \<and> content c = rec_content r"
    if "import_chunk r = Inr c"
    using that by (rule import_chunk_id)
  have all: "map chunk_id chunks = map (\<lambda>r. Some (rec_id r)) records
        \<and> import_chunks coll records
          = (case add_chunks coll chunks 100 of
               (coll', Inl e) \<Rightarrow> (coll', Inl e)
             | (coll', Inr n) \<Rightarrow> (coll', Inr ()))
        \<and> (\<exists>k. add_calls (fst (import_chunks coll records))
                 = add_calls coll @ take k (map add_call_of (batches 100 chunks)))
        \<and> concat (map add_ids (map add_call_of (batches 100 chunks)))
          = map (\<lambda>r. Some (rec_id r)) records
        \<and> (distinct (map rec_id records) \<longrightarrow>
             add_chunks coll chunks 100
               = (coll\<lparr>held_records := insert_new (held_records coll) (entries_of chunks),
                        add_calls := add_calls coll @ map add_call_of (batches 100 chunks)\<rparr>,
                  Inr (int (length chunks)))
             \<and> import_chunks coll records
               = (coll\<lparr>held_records := insert_new (held_records coll) (entries_of chunks),
                        add_calls := add_calls coll @ map add_call_of (batches 100 chunks)\<rparr>,
                  Inr ()))"
    if loop: "import_chunks_loop records [] = Inr chunks"
  proof -
    from import_chunks_loop_ids [OF loop]
    have ids: "map chunk_id chunks = map (\<lambda>r. Some (rec_id r)) records" by simp
    have route: "import_chunks coll records
          = (case add_chunks coll chunks 100 of
               (coll', Inl e) \<Rightarrow> (coll', Inl e)
             | (coll', Inr n) \<Rightarrow> (coll', Inr ()))"
      by (simp add: import_chunks_def loop)
    have fst_eq: "fst (import_chunks coll records) = fst (add_chunks coll chunks 100)"
      unfolding route by (simp split: prod.splits sum.splits)
    have pos: "(0::int) < 100" by simp
    from add_chunks_calls [OF pos, of coll chunks]
    have calls: "\<exists>k. add_calls (fst (import_chunks coll records))
                 = add_calls coll @ take k (map add_call_of (batches 100 chunks))"
      unfolding fst_eq by simp
    have "(0::nat) < 100" by simp
    from batches_concat [OF this, of chunks]
    have "concat (map add_ids (map add_call_of (batches 100 chunks))) = map chunk_id chunks"
      by (simp only: add_ids_batches)
    with ids have handed: "concat (map add_ids (map add_call_of (batches 100 chunks)))
          = map (\<lambda>r. Some (rec_id r)) records"
      by simp
    have ok: "add_chunks coll chunks 100
               = (coll\<lparr>held_records := insert_new (held_records coll) (entries_of chunks),
                        add_calls := add_calls coll @ map add_call_of (batches 100 chunks)\<rparr>,
                  Inr (int (length chunks)))
             \<and> import_chunks coll records
               = (coll\<lparr>held_records := insert_new (held_records coll) (entries_of chunks),
                        add_calls := add_calls coll @ map add_call_of (batches 100 chunks)\<rparr>,
                  Inr ())"
      if dist: "distinct (map rec_id records)"
    proof -
      have some: "list_all (\<lambda>c. chunk_id c \<noteq> None) chunks"
      proof -
        have "chunk_id c \<noteq> None" if "c \<in> set chunks" for c
        proof -
          from that have "chunk_id c \<in> set (map chunk_id chunks)" by simp
          then show ?thesis unfolding ids by auto
        qed
        then show ?thesis by (simp add: list_all_iff)
      qed
      have "distinct (map Some (map rec_id records))"
        using dist by (simp only: distinct_map) simp
      then have d: "distinct (map chunk_id chunks)"
        unfolding ids by (simp add: o_def)
      have "(0::nat) < 100" by simp
      from batches_addable [OF this some d]
      have "list_all addable (batches (nat 100) chunks)" by simp
      from add_chunks_positive [OF pos this, of coll]
      have add: "add_chunks coll chunks 100
               = (coll\<lparr>held_records := insert_new (held_records coll) (entries_of chunks),
                        add_calls := add_calls coll @ map add_call_of (batches 100 chunks)\<rparr>,
                  Inr (int (length chunks)))"
        by simp
      with route show ?thesis by simp
    qed
    from ids route calls handed ok show ?thesis by blast
  qed
  from std kept one all show ?thesis by blast
qed

theorem import_keeps_stored_id_witness:
  "import_chunk (legacy_record ''legacy-1'') = Inr (legacy_chunk ''legacy-1'')
   \<and> chunk_id (legacy_chunk ''legacy-1'') = Some ''legacy-1''
   \<and> generate_id (legacy_chunk ''legacy-1'') \<noteq> ''legacy-1''
   \<and> import_chunks_loop [legacy_record ''legacy-1'', legacy_record ''legacy-2''] []
     = Inr [legacy_chunk ''legacy-1'', legacy_chunk ''legacy-2'']
   \<and> distinct (map rec_id [legacy_record ''legacy-1'', legacy_record ''legacy-2''])
   \<and> import_chunks empty_collection [legacy_record ''legacy-1'', legacy_record ''legacy-2'']
     = (\<lparr>held_records =
            [(''legacy-1'', ''def f(): pass'', chunk_metadata (legacy_chunk ''legacy-1'')),
             (''legacy-2'', ''def f(): pass'', chunk_metadata (legacy_chunk ''legacy-2''))],
          add_calls = [add_call_of [legacy_chunk ''legacy-1'', legacy_chunk ''legacy-2'']]\<rparr>,
        Inr ())
   \<and> add_ids (add_call_of [legacy_chunk ''legacy-1'', legacy_chunk ''legacy-2''])
     = [Some ''legacy-1'', Some ''legacy-2'']"
proof -
  let ?rs = "[legacy_record ''legacy-1'', legacy_record ''legacy-2'']"
  let ?cs = "[legacy_chunk ''legacy-1'', legacy_chunk ''legacy-2'']"
  have imp: "import_chunk (legacy_record i) = Inr (legacy_chunk i)" for i
    by (simp add: legacy_record_def legacy_chunk_def import_chunk_def str_item_def
        int_item_def str_get_def dict_item_def dict_get_def)
  have loop: "import_chunks_loop ?rs [] = Inr ?cs"
    by (simp add: imp)
  have sel: "chunk_id (legacy_chunk i) = Some i" "content (legacy_chunk i) = ''def f(): pass''"
    for i
    by (simp_all add: legacy_chunk_def CodeChunk_def post_init_def)
  have b: "batches 100 ?cs = [?cs]"
    by (simp add: batches_step)
  have dist: "distinct (map rec_id ?rs)"
    by (simp add: legacy_record_def)
  note t = import_keeps_stored_id
    [where r = "legacy_record ''legacy-1''" and c = "legacy_chunk ''legacy-1''"
       and records = ?rs and chunks = ?cs and coll = empty_collection]
  from t imp [of "''legacy-1''"]
  have "chunk_id (legacy_chunk ''legacy-1'') = Some (rec_id (legacy_record ''legacy-1''))"
    by blast
  then have kept: "chunk_id (legacy_chunk ''legacy-1'') = Some ''legacy-1''"
    by (simp add: legacy_record_def)
  have fresh: "generate_id (legacy_chunk ''legacy-1'') \<noteq> ''legacy-1''"
    by (simp add: generate_id_def legacy_chunk_def Let_def)
  from t loop dist
  have "import_chunks empty_collection ?rs
        = (empty_collection
             \<lparr>held_records := insert_new (held_records empty_collection) (entries_of ?cs),
              add_calls := add_calls empty_collection @ map add_call_of (batches 100 ?cs)\<rparr>,
           Inr ())"
    by blast
  then have run: "import_chunks empty_collection ?rs
     = (\<lparr>held_records =
            [(''legacy-1'', ''def f(): pass'', chunk_metadata (legacy_chunk ''legacy-1'')),
             (''legacy-2'', ''def f(): pass'', chunk_metadata (legacy_chunk ''legacy-2''))],
          add_calls = [add_call_of ?cs]\<rparr>, Inr ())"
    unfolding b by (simp add: empty_collection_def entries_of_def sel)
  have ids: "add_ids (add_call_of ?cs) = [Some ''legacy-1'', Some ''legacy-2'']"
    by (simp add: add_call_of_def sel)
  show ?thesis
    by (intro conjI) (rule imp kept fresh loop dist run ids)+
qed

end
